theory Spec2Isabelle
  imports Complex_Main "HOL-Library.Product_Lexorder"
begin

section \<open>Python values used by gps-astro.py\<close>

text \<open>
  A Python \<open>str\<close> is a sequence of Unicode code points; it is modelled as a list of
  code point numbers, so that the Chinese literals of the source are ordinary lists and
  \<open>length\<close> counts what Python's \<open>len\<close> counts. \<open>str\<close> embeds an ASCII literal.
\<close>

type_synonym pystr = "nat list"

definition str :: "string \<Rightarrow> pystr" where
  "str s = map of_char s"

text \<open>
  A Python \<open>float\<close> is idealised as a real number (no rounding), plus the two kinds
  of non-finite value that \<open>float()\<close> can return for the texts \<open>inf\<close> and \<open>nan\<close>.
\<close>

datatype pyfloat = Finite real | Infinite | NaN

datatype exn = IndexError | ValueError | OverflowError

text \<open>Sequencing of a computation that may raise: the first exception wins.\<close>

definition bind_exn :: "exn + 'a \<Rightarrow> ('a \<Rightarrow> exn + 'b) \<Rightarrow> exn + 'b" where
  "bind_exn m f = (case m of Inl e \<Rightarrow> Inl e | Inr x \<Rightarrow> f x)"

text \<open>\<open>parts[k]\<close>: an index past the end raises IndexError.\<close>

definition index :: "'a list \<Rightarrow> nat \<Rightarrow> exn + 'a" where
  "index xs k = (if k < length xs then Inr (xs ! k) else Inl IndexError)"

text \<open>\<open>line.split(',')\<close>: every separator cuts, empty fields are kept, and the
  result always has at least one field.\<close>

fun split_on :: "'a \<Rightarrow> 'a list \<Rightarrow> 'a list list" where
  "split_on sep [] = [[]]"
| "split_on sep (c # cs) =
     (if c = sep then [] # split_on sep cs
      else (case split_on sep cs of
              [] \<Rightarrow> [[c]]
            | p # ps \<Rightarrow> (c # p) # ps))"

text \<open>\<open>int(x)\<close> on a finite float truncates towards zero; \<open>x % m\<close> on finite
  floats with a positive \<open>m\<close> is \<open>x - m * floor(x / m)\<close>, between 0 and \<open>m\<close>.\<close>

definition py_int :: "real \<Rightarrow> int" where
  "py_int x = (if 0 \<le> x then \<lfloor>x\<rfloor> else \<lceil>x\<rceil>)"

definition py_fmod :: "real \<Rightarrow> real \<Rightarrow> real" where
  "py_fmod x m = x - m * of_int \<lfloor>x / m\<rfloor>"

subsection \<open>The builtin float() on text\<close>

text \<open>
  \<open>float(s)\<close> is a builtin, not code of this program. The part of its grammar that the
  telemetry fields use, an optionally signed plain decimal literal, is computed by
  \<open>dec_literal\<close>; what \<open>float()\<close> does with every other text (exponents, surrounding
  blanks, underscores, \<open>inf\<close>, \<open>nan\<close>, non-ASCII digits) is the parameter \<open>ext\<close>, where
  \<open>None\<close> stands for ValueError.
\<close>

definition is_digit :: "nat \<Rightarrow> bool" where
  "is_digit c = (48 \<le> c \<and> c \<le> 57)"

definition digits_val :: "nat list \<Rightarrow> nat" where
  "digits_val ds = foldl (\<lambda>a c. 10 * a + (c - 48)) 0 ds"

definition unsigned_literal :: "pystr \<Rightarrow> real option" where
  "unsigned_literal s =
     (let ip = takeWhile is_digit s; rest = dropWhile is_digit s in
      if ip = [] then None
      else (case rest of
              [] \<Rightarrow> Some (of_nat (digits_val ip))
            | c # fp \<Rightarrow>
                if c = 46 \<and> list_all is_digit fp
                then Some (of_nat (digits_val ip) + of_nat (digits_val fp) / 10 ^ length fp)
                else None))"

definition dec_literal :: "pystr \<Rightarrow> real option" where
  "dec_literal s =
     (case s of
        [] \<Rightarrow> None
      | c # r \<Rightarrow>
          if c = 45 then map_option uminus (unsigned_literal r)
          else if c = 43 then unsigned_literal r
          else unsigned_literal s)"

definition py_float :: "(pystr \<Rightarrow> pyfloat option) \<Rightarrow> pystr \<Rightarrow> exn + pyfloat" where
  "py_float ext s =
     (case dec_literal s of
        Some r \<Rightarrow> Inr (Finite r)
      | None \<Rightarrow> (case ext s of Some v \<Rightarrow> Inr v | None \<Rightarrow> Inl ValueError))"

section \<open>Telemetry: parse_gprmc\<close>

record gps_fix =
  latitude :: real
  longitude :: real
  speed :: pyfloat
  course :: pyfloat

text \<open>
  One coordinate: \<open>deg = int(raw / 100)\<close>, \<open>min = raw % 100\<close>,
  \<open>value = deg + min / 60.0\<close>, negated when the hemisphere field equals \<open>neg_dir\<close>.
  The conversion \<open>int()\<close> is the first step and the only one that can raise:
  OverflowError on an infinity, ValueError on a NaN.
\<close>

definition decode_coord :: "pyfloat \<Rightarrow> pystr \<Rightarrow> pystr \<Rightarrow> exn + real" where
  "decode_coord raw dir neg_dir =
     (case raw of
        Finite r \<Rightarrow>
          (let deg = py_int (r / 100);
               mins = py_fmod r 100;
               v = of_int deg + mins / 60
           in Inr (if dir = neg_dir then - v else v))
      | Infinite \<Rightarrow> Inl OverflowError
      | NaN \<Rightarrow> Inl ValueError)"

text \<open>The body of the \<open>try\<close> block, statement by statement.\<close>

definition parse_gprmc_body :: "(pystr \<Rightarrow> pyfloat option) \<Rightarrow> pystr \<Rightarrow> exn + gps_fix option" where
  "parse_gprmc_body ext line =
     (let parts = split_on 44 line in
      bind_exn (index parts 0) (\<lambda>tag.
      if tag \<noteq> str ''$GPRMC'' then Inr None
      else
      bind_exn (index parts 2) (\<lambda>status.
      if status \<noteq> str ''A'' then Inr None
      else
      bind_exn (index parts 3) (\<lambda>f3.
      bind_exn (py_float ext f3) (\<lambda>lat_raw.
      bind_exn (index parts 4) (\<lambda>lat_dir.
      bind_exn (index parts 5) (\<lambda>f5.
      bind_exn (py_float ext f5) (\<lambda>lon_raw.
      bind_exn (index parts 6) (\<lambda>lon_dir.
      bind_exn (decode_coord lat_raw lat_dir (str ''S'')) (\<lambda>lat.
      bind_exn (decode_coord lon_raw lon_dir (str ''W'')) (\<lambda>lon.
      bind_exn (index parts 7) (\<lambda>f7.
      bind_exn (py_float ext f7) (\<lambda>spd.
      bind_exn (index parts 8) (\<lambda>f8.
      bind_exn (py_float ext f8) (\<lambda>crs.
      Inr (Some \<lparr>latitude = lat, longitude = lon, speed = spd, course = crs\<rparr>))))))))))))))))"

text \<open>\<open>try: ... except Exception: return None\<close>. The result type keeps the
  alternative "an exception leaves the function" (\<open>Inl\<close>) so that its absence is a
  statement about the handler.\<close>

definition parse_gprmc :: "(pystr \<Rightarrow> pyfloat option) \<Rightarrow> pystr \<Rightarrow> exn + gps_fix option" where
  "parse_gprmc ext line =
     (case parse_gprmc_body ext line of
        Inl e \<Rightarrow> Inr None
      | Inr r \<Rightarrow> Inr r)"

text \<open>The \<open>k\<close>-th comma-separated field of a line, when there is one.\<close>

definition field :: "pystr \<Rightarrow> nat \<Rightarrow> pystr option" where
  "field line k = (let parts = split_on 44 line in
                   if k < length parts then Some (parts ! k) else None)"

text \<open>Numeric parsing of field \<open>k\<close> fails: the field is missing or \<open>float()\<close> raises.\<close>

definition float_fails :: "(pystr \<Rightarrow> pyfloat option) \<Rightarrow> pystr \<Rightarrow> nat \<Rightarrow> bool" where
  "float_fails ext line k =
     (case field line k of
        None \<Rightarrow> True
      | Some s \<Rightarrow> (case py_float ext s of Inl e \<Rightarrow> True | Inr v \<Rightarrow> False))"

text \<open>The builtin \<open>float()\<close> with no extension: every text that is not a plain decimal
  literal raises ValueError. Used for concrete lines.\<close>

definition ext_none :: "pystr \<Rightarrow> pyfloat option" where
  "ext_none s = None"

section \<open>Dates, times and their text\<close>

text \<open>A \<open>datetime\<close> by its fields. Python orders datetimes of one time zone by these
  fields, most significant first.\<close>

record datetime =
  dt_year :: int
  dt_month :: int
  dt_day :: int
  dt_hour :: int
  dt_minute :: int
  dt_second :: int
  dt_microsecond :: int

definition dt_tuple :: "datetime \<Rightarrow> int \<times> int \<times> int \<times> int \<times> int \<times> int \<times> int" where
  "dt_tuple d = (dt_year d, dt_month d, dt_day d, dt_hour d, dt_minute d, dt_second d,
                 dt_microsecond d)"

text \<open>The proleptic Gregorian day number of a date (\<open>date.toordinal()\<close>); differences of
  dates and of datetimes are differences of these.\<close>

definition is_leap :: "int \<Rightarrow> bool" where
  "is_leap y = (y mod 4 = 0 \<and> (y mod 100 \<noteq> 0 \<or> y mod 400 = 0))"

definition days_before_year :: "int \<Rightarrow> int" where
  "days_before_year y = (y - 1) * 365 + (y - 1) div 4 - (y - 1) div 100 + (y - 1) div 400"

definition days_before_month :: "int \<Rightarrow> int \<Rightarrow> int" where
  "days_before_month y m =
     [0, 31, 59, 90, 120, 151, 181, 212, 243, 273, 304, 334] ! nat (m - 1)
     + (if 2 < m \<and> is_leap y then 1 else 0)"

definition ymd_ordinal :: "int \<Rightarrow> int \<Rightarrow> int \<Rightarrow> int" where
  "ymd_ordinal y m d = days_before_year y + days_before_month y m + d"

definition dt_ordinal :: "datetime \<Rightarrow> int" where
  "dt_ordinal d = ymd_ordinal (dt_year d) (dt_month d) (dt_day d)"

definition dt_micros :: "datetime \<Rightarrow> int" where
  "dt_micros d =
     (((dt_ordinal d * 24 + dt_hour d) * 60 + dt_minute d) * 60 + dt_second d) * 1000000
     + dt_microsecond d"

text \<open>\<open>(a - b).total_seconds()\<close>\<close>

definition total_seconds_between :: "datetime \<Rightarrow> datetime \<Rightarrow> real" where
  "total_seconds_between a b = of_int (dt_micros a - dt_micros b) / 1000000"

text \<open>Decimal text of a natural number, and zero padding as in \<open>{n:02d}\<close>.\<close>

fun decimal :: "nat \<Rightarrow> pystr" where
  "decimal n = (if n < 10 then [48 + n] else decimal (n div 10) @ [48 + n mod 10])"

declare decimal.simps [simp del]

definition zero_pad :: "nat \<Rightarrow> pystr \<Rightarrow> pystr" where
  "zero_pad w s = replicate (w - length s) 48 @ s"

definition fmt02 :: "int \<Rightarrow> pystr" where
  "fmt02 n = zero_pad 2 (decimal (nat n))"

definition strftime_hms :: "datetime \<Rightarrow> pystr" where
  "strftime_hms d = fmt02 (dt_hour d) @ str '':'' @ fmt02 (dt_minute d) @ str '':''
                    @ fmt02 (dt_second d)"

definition strftime_ymd_hms :: "datetime \<Rightarrow> pystr" where
  "strftime_ymd_hms d =
     zero_pad 4 (decimal (nat (dt_year d))) @ str ''-'' @ fmt02 (dt_month d) @ str ''-''
     @ fmt02 (dt_day d) @ str '' '' @ strftime_hms d"

definition strftime_md_hm :: "datetime \<Rightarrow> pystr" where
  "strftime_md_hm d =
     fmt02 (dt_month d) @ str ''-'' @ fmt02 (dt_day d) @ str '' '' @ fmt02 (dt_hour d)
     @ str '':'' @ fmt02 (dt_minute d)"

text \<open>\<open>round(x)\<close> rounds a half to the even neighbour.\<close>

definition py_round :: "real \<Rightarrow> int" where
  "py_round x =
     (let f = \<lfloor>x\<rfloor>; d = x - of_int f in
      if d < 1 / 2 then f
      else if 1 / 2 < d then f + 1
      else if even f then f else f + 1)"

text \<open>\<open>_format_az_deg\<close>: three digits and the degree sign, or a dash for None.\<close>

definition format_az_deg :: "real option \<Rightarrow> pystr" where
  "format_az_deg deg =
     (case deg of
        None \<Rightarrow> [8212]
      | Some d \<Rightarrow> zero_pad 3 (decimal (nat (py_round d mod 360))) @ [176])"

section \<open>Smoothing: add_sample and average\<close>

definition SMOOTH_WINDOW :: real where
  "SMOOTH_WINDOW = 20"

text \<open>The \<open>while\<close> loop of \<open>add_sample\<close>: pop from the left while the leftmost entry is
  older than the window; it stops at the first entry that is not.\<close>

fun evict :: "real \<Rightarrow> (real \<times> real) list \<Rightarrow> (real \<times> real) list" where
  "evict now [] = []"
| "evict now ((t, v) # history) =
     (if now - t > SMOOTH_WINDOW then evict now history else (t, v) # history)"

text \<open>\<open>now\<close> is the reading of \<open>time.time()\<close> taken by the call.\<close>

definition add_sample :: "real \<Rightarrow> real \<Rightarrow> (real \<times> real) list \<Rightarrow> (real \<times> real) list" where
  "add_sample now val history = evict now (history @ [(now, val)])"

definition average :: "(real \<times> real) list \<Rightarrow> real" where
  "average history =
     (if history = [] then 0
      else sum_list (map snd history) / of_nat (length history))"

section \<open>Double precision arithmetic of the phase ratio\<close>

text \<open>
  The ratio that selects the moon's phase bucket is the result of three float operations,
  and one of them can round up to the end of the range, so this path follows the rounding
  of binary64: \<open>rnd x\<close> is the double nearest to the real \<open>x\<close>, a tie going to the even
  significand. The unit in the last place is \<open>2 ^ (e - 52)\<close> for \<open>2 ^ e \<le> |x| < 2 ^ (e + 1)\<close>,
  and \<open>2 ^ -1074\<close> below the normal range. Magnitudes from \<open>2 ^ 1024\<close> on, which overflow,
  do not occur on this path.
\<close>

definition pow2 :: "int \<Rightarrow> real" where
  "pow2 k = (if 0 \<le> k then 2 ^ nat k else 1 / 2 ^ nat (- k))"

definition rnd :: "real \<Rightarrow> real" where
  "rnd x =
     (if x = 0 then 0
      else (let u = pow2 (max \<lfloor>log 2 \<bar>x\<bar>\<rfloor> (- 1022) - 52)
            in of_int (py_round (x / u)) * u))"

text \<open>C's \<open>fmod\<close>: the remainder of the division truncated towards zero. It has the sign
  of \<open>x\<close> and is exact.\<close>

definition c_fmod :: "real \<Rightarrow> real \<Rightarrow> real" where
  "c_fmod x m = x - m * of_int (py_int (x / m))"

text \<open>
  Python's \<open>x % m\<close> on floats (\<open>float_rem\<close> of the interpreter): \<open>fmod\<close>, and when the
  remainder is not zero and its sign differs from the divisor's, the divisor is added to
  it, which is a float addition and rounds.
\<close>

definition float_rem :: "real \<Rightarrow> real \<Rightarrow> real" where
  "float_rem x m =
     (let r = c_fmod x m in
      if r \<noteq> 0 \<and> (m < 0) \<noteq> (r < 0) then rnd (r + m) else r)"

section \<open>Moon phase: calculate_moon_phase_de421\<close>

text \<open>What the ephemeris returns for one instant: the apparent geocentric position
  vectors (au) and the ecliptic longitudes (degrees) of sun and moon.\<close>

record moon_obs =
  sun_pos :: "real \<times> real \<times> real"
  moon_pos :: "real \<times> real \<times> real"
  sun_elon :: real
  moon_elon :: real

record moon_phase =
  phase_name :: pystr
  phase_emoji :: pystr
  moon_age :: real
  phase_percentage :: real
  brightness_side :: pystr
  illumination :: real
  trend :: pystr

definition synodic_month :: real where
  "synodic_month = rnd 29.530588"

text \<open>\<open>lon_diff = (moon_lon - sun_lon) % 360\<close> and \<open>phase_ratio = lon_diff / 360.0\<close>:
  a float subtraction, a float remainder and a float division.\<close>

definition phase_ratio :: "real \<Rightarrow> real \<Rightarrow> real" where
  "phase_ratio moon_lon sun_lon = rnd (float_rem (rnd (moon_lon - sun_lon)) 360 / 360)"

definition trend_of :: "real \<Rightarrow> pystr" where
  "trend_of r = (if r < 0.5 then [8593] else if r > 0.5 then [8595] else [8212])"

text \<open>The \<open>if\<close>/\<open>elif\<close> chain of names, icons and bright sides, in the source's order.\<close>

definition phase_of :: "real \<Rightarrow> pystr \<times> pystr \<times> pystr" where
  "phase_of r =
     (if r < 0.0625 then ([26032, 26376], [127761], [19981, 21487, 35265])
      else if r < 0.1875 then ([23077, 30473, 26376], [127762], [21491, 36793, 20142])
      else if r < 0.3125 then ([19978, 24358, 26376], [127763], [21491, 36793, 20142])
      else if r < 0.4375 then ([30408, 20984, 26376], [127764], [21491, 36793, 20142])
      else if r < 0.5625 then ([28385, 26376], [127765], [20840, 20142])
      else if r < 0.6875 then ([20111, 20984, 26376], [127766], [24038, 36793, 20142])
      else if r < 0.8125 then ([19979, 24358, 26376], [127767], [24038, 36793, 20142])
      else if r < 0.9375 then ([27531, 26376], [127768], [24038, 36793, 20142])
      else ([26032, 26376], [127761], [19981, 21487, 35265]))"

definition dot3 :: "real \<times> real \<times> real \<Rightarrow> real \<times> real \<times> real \<Rightarrow> real" where
  "dot3 a b = (case a of (a0, a1, a2) \<Rightarrow> case b of (b0, b1, b2) \<Rightarrow>
                 a0 * b0 + a1 * b1 + a2 * b2)"

definition norm3 :: "real \<times> real \<times> real \<Rightarrow> real" where
  "norm3 a = (case a of (a0, a1, a2) \<Rightarrow> sqrt (a0\<^sup>2 + a1\<^sup>2 + a2\<^sup>2))"

definition degrees :: "real \<Rightarrow> real" where
  "degrees x = x * 180 / pi"

definition radians :: "real \<Rightarrow> real" where
  "radians x = x * pi / 180"

text \<open>
  \<open>loaded\<close> is \<open>ephemeris is not None\<close>; \<open>obs\<close> is what the ephemeris queries of the
  \<open>try\<close> block return, \<open>None\<close> when one of them raises. The arithmetic after them does
  not raise: the divisor is at least \<open>1e-15\<close> and \<open>acos\<close> gets a clamped argument.
  The phase angle and the illumination go through the square root, \<open>acos\<close> and \<open>cos\<close>
  of the C library, whose last bits are not specified; they are read as real numbers.
\<close>

definition calculate_moon_phase_de421 :: "bool \<Rightarrow> moon_obs option \<Rightarrow> moon_phase" where
  "calculate_moon_phase_de421 loaded obs =
     (if \<not> loaded then
        \<lparr>phase_name = [26032, 26376], phase_emoji = [127761], moon_age = 0,
         phase_percentage = 0, brightness_side = [26410, 21152, 36733], illumination = 0,
         trend = [8212]\<rparr>
      else case obs of
        None \<Rightarrow>
          \<lparr>phase_name = [26032, 26376], phase_emoji = [127761], moon_age = 0,
           phase_percentage = 0, brightness_side = [35745, 31639, 38169, 35823],
           illumination = 0, trend = [8212]\<rparr>
      | Some ob \<Rightarrow>
          (let cos_phase0 = dot3 (sun_pos ob) (moon_pos ob)
                            / (norm3 (sun_pos ob) * norm3 (moon_pos ob) + 1 / 10 ^ 15);
               cos_phase = max (-1) (min 1 cos_phase0);
               phase_angle = degrees (arccos cos_phase);
               r = phase_ratio (moon_elon ob) (sun_elon ob);
               (nm, emoji, side) = phase_of r
           in \<lparr>phase_name = nm, phase_emoji = emoji, moon_age = rnd (r * synodic_month),
               phase_percentage = rnd (r * 100), brightness_side = side,
               illumination = 50 * (1 - cos (radians phase_angle)),
               trend = trend_of r\<rparr>))"

text \<open>The nine intervals of the specification, each with the name of its bucket.\<close>

definition phase_buckets :: "(real \<times> real \<times> pystr) list" where
  "phase_buckets =
     [(0, 0.0625, [26032, 26376]),
      (0.0625, 0.1875, [23077, 30473, 26376]),
      (0.1875, 0.3125, [19978, 24358, 26376]),
      (0.3125, 0.4375, [30408, 20984, 26376]),
      (0.4375, 0.5625, [28385, 26376]),
      (0.5625, 0.6875, [20111, 20984, 26376]),
      (0.6875, 0.8125, [19979, 24358, 26376]),
      (0.8125, 0.9375, [27531, 26376]),
      (0.9375, 1, [26032, 26376])]"

definition in_bucket :: "real \<Rightarrow> real \<times> real \<times> pystr \<Rightarrow> bool" where
  "in_bucket r b = (case b of (lo, hi, nm) \<Rightarrow> lo \<le> r \<and> r < hi)"

text \<open>Consecutive intervals share their end point: no gap and no overlap.\<close>

fun contiguous :: "(real \<times> real \<times> pystr) list \<Rightarrow> bool" where
  "contiguous ((lo, hi, nm) # (lo', hi', nm') # bs) =
     (lo < hi \<and> hi = lo' \<and> contiguous ((lo', hi', nm') # bs))"
| "contiguous [(lo, hi, nm)] = (lo < hi)"
| "contiguous [] = True"

section \<open>Sun rise and set: calculate_sun_events_skyfield\<close>

text \<open>\<open>sun_alt_az_skyfield\<close>: \<open>(None, None)\<close> when the ephemeris is not loaded or the
  query \<open>q\<close> raises (\<open>q = None\<close>), else altitude and azimuth.\<close>

definition sun_alt_az_skyfield :: "bool \<Rightarrow> (real \<times> real) option \<Rightarrow> real option \<times> real option" where
  "sun_alt_az_skyfield loaded q =
     (if \<not> loaded then (None, None)
      else case q of
        None \<Rightarrow> (None, None)
      | Some (alt, az) \<Rightarrow> (Some alt, Some az))"

text \<open>
  What the function reads from outside: whether the ephemeris is loaded; the events that
  \<open>find_discrete\<close> returns for the local day, each with its code (1 is a rise), its
  local time and the azimuth at that instant, or \<open>None\<close> when a call of the search
  raises; and the ephemeris answers at local noon and local midnight.
\<close>

record sun_env =
  sun_loaded :: bool
  sun_found :: "(int \<times> datetime \<times> real) list option"
  noon_query :: "(real \<times> real) option"
  midn_query :: "(real \<times> real) option"

type_synonym sun_events =
  "pystr \<times> pystr \<times> datetime option \<times> real option \<times> datetime option \<times> real option"

definition NOT_LOADED :: pystr where
  "NOT_LOADED = [26410, 21152, 36733]"

definition CALC_ERROR :: pystr where
  "CALC_ERROR = [35745, 31639, 38169, 35823]"

definition POLAR_DAY :: pystr where
  "POLAR_DAY = [26497, 26172]"

definition POLAR_NIGHT :: pystr where
  "POLAR_NIGHT = [26497, 22812]"

definition event_text :: "datetime \<Rightarrow> real \<Rightarrow> pystr" where
  "event_text ev_local az_deg =
     strftime_hms ev_local @ [32, 26041, 20301] @ format_az_deg (Some az_deg)"

text \<open>The \<open>for\<close> loop over the events: the first rise and the first set are kept. The
  state is (sunrise_str, next_rise_dt, next_rise_az) and the same for the set.\<close>

type_synonym found_event = "(pystr \<times> datetime \<times> real) option"

fun first_events :: "(int \<times> datetime \<times> real) list \<Rightarrow> found_event \<Rightarrow> found_event
                     \<Rightarrow> found_event \<times> found_event" where
  "first_events [] rise_ev set_ev = (rise_ev, set_ev)"
| "first_events ((ev, ev_local, az_deg) # rest) rise_ev set_ev =
     (if ev = 1 then
        (if rise_ev = None
         then first_events rest (Some (event_text ev_local az_deg, ev_local, az_deg)) set_ev
         else first_events rest rise_ev set_ev)
      else
        (if set_ev = None
         then first_events rest rise_ev (Some (event_text ev_local az_deg, ev_local, az_deg))
         else first_events rest rise_ev set_ev))"

definition calculate_sun_events_skyfield :: "sun_env \<Rightarrow> sun_events" where
  "calculate_sun_events_skyfield env =
     (if \<not> sun_loaded env then (NOT_LOADED, NOT_LOADED, None, None, None, None)
      else case sun_found env of
        None \<Rightarrow> (CALC_ERROR, CALC_ERROR, None, None, None, None)
      | Some evs \<Rightarrow>
          (case first_events evs None None of (rise_ev, set_ev) \<Rightarrow>
             if rise_ev = None \<and> set_ev = None then
               (let alt_noon = fst (sun_alt_az_skyfield (sun_loaded env) (noon_query env));
                    alt_midn = fst (sun_alt_az_skyfield (sun_loaded env) (midn_query env))
                in case (alt_noon, alt_midn) of
                     (Some a, Some b) \<Rightarrow>
                       if a > 0 \<and> b > 0 then (POLAR_DAY, POLAR_DAY, None, None, None, None)
                       else if a < 0 \<and> b < 0
                         then (POLAR_NIGHT, POLAR_NIGHT, None, None, None, None)
                       else (CALC_ERROR, CALC_ERROR, None, None, None, None)
                   | _ \<Rightarrow> (CALC_ERROR, CALC_ERROR, None, None, None, None))
             else
               (case rise_ev of None \<Rightarrow> [26080, 26085, 20986] | Some (s, _, _) \<Rightarrow> s,
                case set_ev of None \<Rightarrow> [26080, 26085, 33853] | Some (s, _, _) \<Rightarrow> s,
                map_option (\<lambda>(s, d, a). d) rise_ev, map_option (\<lambda>(s, d, a). a) rise_ev,
                map_option (\<lambda>(s, d, a). d) set_ev, map_option (\<lambda>(s, d, a). a) set_ev)))"

text \<open>Both altitudes were evaluated.\<close>

definition altitudes_evaluated :: "sun_env \<Rightarrow> bool" where
  "altitudes_evaluated env = (noon_query env \<noteq> None \<and> midn_query env \<noteq> None)"

section \<open>Solar terms: calculate_solar_terms\<close>

text \<open>The dictionary \<open>SOLAR_TERM_LONGITUDES\<close> in its insertion order, which is the
  order of the \<open>for\<close> loop over its items.\<close>

definition SOLAR_TERM_LONGITUDES :: "(int \<times> pystr) list" where
  "SOLAR_TERM_LONGITUDES =
     [(315, [31435, 26149]), (330, [38632, 27700]), (345, [24778, 34544]),
      (0, [26149, 20998]), (15, [28165, 26126]), (30, [35895, 38632]),
      (45, [31435, 22799]), (60, [23567, 28385]), (75, [33426, 31181]),
      (90, [22799, 33267]), (105, [23567, 26257]), (120, [22823, 26257]),
      (135, [31435, 31179]), (150, [22788, 26257]), (165, [30333, 38706]),
      (180, [31179, 20998]), (195, [23506, 38706]), (210, [38684, 38477]),
      (225, [31435, 20908]), (240, [23567, 38634]), (255, [22823, 38634]),
      (270, [20908, 33267]), (285, [23567, 23506]), (300, [22823, 23506])]"

text \<open>The three-way test of one target longitude against the longitudes of the previous
  and of the current day.\<close>

definition crossed :: "real \<Rightarrow> real \<Rightarrow> int \<Rightarrow> bool" where
  "crossed prev_lon sun_lon target_lon =
     (if prev_lon > 350 \<and> sun_lon < 10 then
        (target_lon = 0 \<or> target_lon \<ge> 345)
      else if prev_lon < sun_lon then
        (prev_lon \<le> of_int target_lon \<and> of_int target_lon \<le> sun_lon)
      else
        (of_int target_lon \<ge> prev_lon \<or> of_int target_lon \<le> sun_lon))"

text \<open>The targets that one day pair flags, in table order.\<close>

definition flagged_targets :: "real \<Rightarrow> real \<Rightarrow> int list" where
  "flagged_targets prev_lon sun_lon =
     filter (crossed prev_lon sun_lon) (map fst SOLAR_TERM_LONGITUDES)"

text \<open>
  The ephemeris as the scan sees it. Days are day numbers. \<open>noon_lon d\<close> is the sampling
  of the sun's longitude at 12:00 UTC of day \<open>d\<close>: a longitude, a ValueError, or another
  exception. \<open>find_solar_term_time d target\<close> is the refinement started at day \<open>d\<close>; it
  catches its own exceptions and returns \<open>None\<close> for them.
\<close>

datatype sample = Lon real | RaisesValueError | RaisesOther

record term_env =
  terms_loaded :: bool
  noon_lon :: "int \<Rightarrow> sample"
  find_solar_term_time :: "int \<Rightarrow> int \<Rightarrow> datetime option"

type_synonym term_list = "(pystr \<times> datetime) list"

text \<open>The \<open>for\<close> loop over the table for one day pair. An instant is appended when it
  is in the requested year and its name is not yet in the list.\<close>

fun record_crossings :: "term_env \<Rightarrow> int \<Rightarrow> int \<Rightarrow> real \<Rightarrow> real \<Rightarrow> (int \<times> pystr) list
                         \<Rightarrow> term_list \<Rightarrow> term_list" where
  "record_crossings env year current prev_lon sun_lon [] acc = acc"
| "record_crossings env year current prev_lon sun_lon ((target_lon, term_name) # rest) acc =
     (if crossed prev_lon sun_lon target_lon then
        (case find_solar_term_time env (current - 1) target_lon of
           None \<Rightarrow> record_crossings env year current prev_lon sun_lon rest acc
         | Some precise_time \<Rightarrow>
             if dt_year precise_time = year \<and> \<not> list_ex (\<lambda>(name, _). name = term_name) acc
             then record_crossings env year current prev_lon sun_lon rest
                    (acc @ [(term_name, precise_time)])
             else record_crossings env year current prev_lon sun_lon rest acc)
      else record_crossings env year current prev_lon sun_lon rest acc)"

text \<open>The \<open>while\<close> loop over the days. A ValueError skips the day and leaves the
  previous longitude as it is; any other exception leaves the loop (\<open>None\<close>).\<close>

fun scan_days :: "term_env \<Rightarrow> int \<Rightarrow> int list \<Rightarrow> real option \<Rightarrow> term_list
                  \<Rightarrow> term_list option" where
  "scan_days env year [] prev_lon acc = Some acc"
| "scan_days env year (current # days) prev_lon acc =
     (case noon_lon env current of
        RaisesValueError \<Rightarrow> scan_days env year days prev_lon acc
      | RaisesOther \<Rightarrow> None
      | Lon l \<Rightarrow>
          (let sun_lon = py_fmod l 360;
               acc' = (case prev_lon of
                         None \<Rightarrow> acc
                       | Some p \<Rightarrow> record_crossings env year current p sun_lon
                                     SOLAR_TERM_LONGITUDES acc)
           in scan_days env year days (Some sun_lon) acc'))"

text \<open>
  \<open>datetime(year - 1, 12, 1)\<close> and \<open>datetime(year + 1, 2, 1)\<close> raise ValueError outside
  the years 1 to 9999; the outer handler turns that, like every other exception, into the
  empty list. The days run from the first date up to, not including, the second.
\<close>

definition calculate_solar_terms :: "term_env \<Rightarrow> int \<Rightarrow> term_list" where
  "calculate_solar_terms env year =
     (if \<not> terms_loaded env then []
      else if year - 1 < 1 \<or> 9999 < year + 1 then []
      else
        (case scan_days env year
                [ymd_ordinal (year - 1) 12 1 .. ymd_ordinal (year + 1) 2 1 - 1] None [] of
           None \<Rightarrow> []
         | Some solar_terms_dates \<Rightarrow> sort_key (\<lambda>x. dt_tuple (snd x)) solar_terms_dates))"

section \<open>Solar term reminder and its cache: get_solar_term_info\<close>

text \<open>
  \<open>solar_term_reminder\<close>. \<open>today\<close> is the reading of \<open>datetime.today()\<close>, of which the
  date is used. \<open>local_of\<close> is the shift of a UTC instant by the system's offset, \<open>None\<close>
  when the addition leaves the range of \<open>datetime\<close> (OverflowError). The shift is
  computed for each term before the day difference is looked at.
\<close>

fun reminder_loop :: "(datetime \<Rightarrow> datetime option) \<Rightarrow> datetime \<Rightarrow> term_list \<Rightarrow> exn + pystr" where
  "reminder_loop local_of today [] = Inr []"
| "reminder_loop local_of today ((term_name, term_datetime) # rest) =
     (let delta_days = dt_ordinal term_datetime - dt_ordinal today in
      case local_of term_datetime of
        None \<Rightarrow> Inl OverflowError
      | Some local_dt \<Rightarrow>
          if delta_days = 0 then
            Inr ([20170, 26085, 33410, 27668, 58] @ term_name @ [32] @ strftime_hms local_dt)
          else if delta_days = 1 then
            Inr ([26126, 26085, 33410, 27668, 58] @ term_name @ [32] @ strftime_hms local_dt)
          else if 1 < delta_days \<and> delta_days \<le> 30 then
            Inr ([36317, 19979, 20010, 33410, 27668] @ decimal (nat delta_days) @ [22825, 58]
                 @ term_name @ [32] @ strftime_md_hm local_dt)
          else reminder_loop local_of today rest)"

definition solar_term_reminder :: "(datetime \<Rightarrow> datetime option) \<Rightarrow> datetime \<Rightarrow> term_list
                                   \<Rightarrow> exn + pystr" where
  "solar_term_reminder local_of today solar_terms =
     (if solar_terms = [] then Inr [] else reminder_loop local_of today solar_terms)"

text \<open>The two module globals of the cache.\<close>

record term_cache =
  current_solar_terms :: term_list
  last_solar_term_calc_year :: "int option"

definition initial_cache :: term_cache where
  "initial_cache = \<lparr>current_solar_terms = [], last_solar_term_calc_year = None\<rparr>"

text \<open>
  \<open>get_solar_term_info\<close> returns the reminder text and leaves the globals updated. The
  environment is a parameter of each call, since the ephemeris may answer differently from
  one call to the next. An exception of the reminder is caught and gives the empty text;
  the assignments made before it stay.
\<close>

definition get_solar_term_info :: "term_env \<Rightarrow> (datetime \<Rightarrow> datetime option) \<Rightarrow> datetime
                                   \<Rightarrow> term_cache \<Rightarrow> pystr \<times> term_cache" where
  "get_solar_term_info env local_of today cache =
     (let cache' =
            (if last_solar_term_calc_year cache \<noteq> Some (dt_year today)
             then \<lparr>current_solar_terms = calculate_solar_terms env (dt_year today),
                   last_solar_term_calc_year = Some (dt_year today)\<rparr>
             else cache)
      in if current_solar_terms cache' \<noteq> [] then
           (case solar_term_reminder local_of today (current_solar_terms cache') of
              Inl e \<Rightarrow> ([], cache')
            | Inr text \<Rightarrow> (text, cache'))
         else ([], cache'))"

section \<open>Event scheduler: _maybe_fire_event\<close>

text \<open>The eight attributes that \<open>update_minutely_astro\<close> assigns and the scheduler reads.\<close>

record astro =
  next_moonrise_dt :: "datetime option"
  next_moonrise_az :: "real option"
  next_moonset_dt :: "datetime option"
  next_moonset_az :: "real option"
  next_sunrise_dt :: "datetime option"
  next_sunrise_az :: "real option"
  next_sunset_dt :: "datetime option"
  next_sunset_az :: "real option"

text \<open>
  The scheduler's state: the attributes above, the set \<open>_fired_event_keys\<close>, the
  notifications emitted so far, oldest first, each with the key under which \<open>fire_once\<close>
  emitted it and the event name and azimuth it passed to \<open>_write_event_log\<close>, and the
  number of refresh callbacks run so far.
\<close>

record sched =
  astro :: astro
  fired_event_keys :: "pystr set"
  emitted :: "(pystr \<times> pystr \<times> real option) list"
  refresh_calls :: nat

definition initial_sched :: sched where
  "initial_sched =
     \<lparr>astro = \<lparr>next_moonrise_dt = None, next_moonrise_az = None, next_moonset_dt = None,
               next_moonset_az = None, next_sunrise_dt = None, next_sunrise_az = None,
               next_sunset_dt = None, next_sunset_az = None\<rparr>,
      fired_event_keys = {}, emitted = [], refresh_calls = 0\<rparr>"

text \<open>
  The refresh callbacks \<open>refresh_moon\<close> and \<open>refresh_sun\<close> read \<open>self.latest_data\<close>,
  call \<open>update_minutely_astro\<close>, which may assign any of the eight attributes, and call
  the GUI toolkit. A callback returns or raises; either way the attributes may have been
  assigned. \<open>refresh n a\<close> is what the \<open>n\<close>-th callback does when the attributes are \<open>a\<close>
  before it. The callbacks do not touch the set of fired keys.
\<close>

datatype refresh_result = Returns astro | Raises astro

text \<open>How a statement sequence ends: it ran to its end, or an exception left it; the
  state is the one reached.\<close>

datatype outcome = Done sched | Aborted sched

definition state_of :: "outcome \<Rightarrow> sched" where
  "state_of r = (case r of Done st \<Rightarrow> st | Aborted st \<Rightarrow> st)"

definition then_check :: "outcome \<Rightarrow> (sched \<Rightarrow> outcome) \<Rightarrow> outcome" where
  "then_check r f = (case r of Done st \<Rightarrow> f st | Aborted st \<Rightarrow> Aborted st)"

text \<open>
  \<open>fire_once\<close>: return at once for a fired key; else add the key, run the callback
  (\<open>try: refresh_func() finally: pass\<close> handles nothing, so an exception of the callback
  leaves \<open>fire_once\<close> here), then call \<open>_write_event_log\<close>, which catches its own
  exceptions.
\<close>

definition fire_once :: "(nat \<Rightarrow> astro \<Rightarrow> refresh_result) \<Rightarrow> pystr \<Rightarrow> pystr \<Rightarrow> real option
                         \<Rightarrow> sched \<Rightarrow> outcome" where
  "fire_once refresh key event_name az_deg st =
     (if key \<in> fired_event_keys st then Done st
      else
        (let st1 = st\<lparr>fired_event_keys := insert key (fired_event_keys st)\<rparr> in
         case refresh (refresh_calls st1) (astro st1) of
           Raises a \<Rightarrow>
             Aborted (st1\<lparr>astro := a, refresh_calls := Suc (refresh_calls st1)\<rparr>)
         | Returns a \<Rightarrow>
             (let st2 = st1\<lparr>astro := a, refresh_calls := Suc (refresh_calls st1)\<rparr>
              in Done (st2\<lparr>emitted := emitted st2 @ [(key, event_name, az_deg)]\<rparr>))))"

definition should_fire :: "datetime \<Rightarrow> datetime option \<Rightarrow> bool" where
  "should_fire now_local ev_dt =
     (case ev_dt of
        None \<Rightarrow> False
      | Some d \<Rightarrow> \<bar>total_seconds_between now_local d\<bar> \<le> 1.5)"

text \<open>The key of an event: its kind's prefix and the instant printed to the second,
  which drops the microseconds.\<close>

definition event_key :: "pystr \<Rightarrow> datetime \<Rightarrow> pystr" where
  "event_key prefix d = prefix @ strftime_ymd_hms d"

text \<open>One of the four \<open>if should_fire(...)\<close> blocks.\<close>

definition check_event :: "(nat \<Rightarrow> astro \<Rightarrow> refresh_result) \<Rightarrow> datetime \<Rightarrow> pystr \<Rightarrow> pystr
                           \<Rightarrow> datetime option \<Rightarrow> real option \<Rightarrow> sched \<Rightarrow> outcome" where
  "check_event refresh now_local prefix event_name ev_dt ev_az st =
     (case ev_dt of
        None \<Rightarrow> Done st
      | Some d \<Rightarrow>
          if should_fire now_local (Some d)
          then fire_once refresh (event_key prefix d) event_name ev_az st
          else Done st)"

text \<open>The four blocks in the source's order; each reads the attributes as the blocks
  before it left them, and an exception skips the blocks after it.\<close>

definition maybe_fire_event :: "(nat \<Rightarrow> astro \<Rightarrow> refresh_result) \<Rightarrow> datetime \<Rightarrow> sched \<Rightarrow> outcome" where
  "maybe_fire_event refresh now_local st =
     then_check
       (check_event refresh now_local (str ''moonrise-'') [26376, 20986]
          (next_moonrise_dt (astro st)) (next_moonrise_az (astro st)) st) (\<lambda>st1.
     then_check
       (check_event refresh now_local (str ''moonset-'') [26376, 33853]
          (next_moonset_dt (astro st1)) (next_moonset_az (astro st1)) st1) (\<lambda>st2.
     then_check
       (check_event refresh now_local (str ''sunrise-'') [26085, 20986]
          (next_sunrise_dt (astro st2)) (next_sunrise_az (astro st2)) st2) (\<lambda>st3.
     check_event refresh now_local (str ''sunset-'') [26085, 33853]
       (next_sunset_dt (astro st3)) (next_sunset_az (astro st3)) st3)))"

text \<open>
  The driver: a sequence of polls. Before each poll the minute-level recomputation may
  have assigned the eight attributes anew (\<open>upd\<close>); the poll then runs at \<open>now_local\<close>
  inside \<open>try: ... except Exception: pass\<close> of \<open>update_display\<close>, so the driver goes on
  from the state the poll reached.
\<close>

fun run_polls :: "(nat \<Rightarrow> astro \<Rightarrow> refresh_result) \<Rightarrow> ((astro \<Rightarrow> astro) \<times> datetime) list
                  \<Rightarrow> sched \<Rightarrow> sched" where
  "run_polls refresh [] st = st"
| "run_polls refresh ((upd, now_local) # polls) st =
     run_polls refresh polls
       (state_of (maybe_fire_event refresh now_local (st\<lparr>astro := upd (astro st)\<rparr>)))"

text \<open>How often a key was emitted.\<close>

definition times_emitted :: "pystr \<Rightarrow> sched \<Rightarrow> nat" where
  "times_emitted key st = length (filter (\<lambda>e. fst e = key) (emitted st))"

text \<open>
  The four kinds with their key prefix, event name, scheduled instant and azimuth, in the
  order of the poll; and the notifications a poll owes at \<open>now_local\<close>: one for each kind
  that is due and whose key has not fired, also not earlier in the same poll.
\<close>

definition scheduled :: "astro \<Rightarrow> (pystr \<times> pystr \<times> datetime option \<times> real option) list" where
  "scheduled a =
     [(str ''moonrise-'', [26376, 20986], next_moonrise_dt a, next_moonrise_az a),
      (str ''moonset-'', [26376, 33853], next_moonset_dt a, next_moonset_az a),
      (str ''sunrise-'', [26085, 20986], next_sunrise_dt a, next_sunrise_az a),
      (str ''sunset-'', [26085, 33853], next_sunset_dt a, next_sunset_az a)]"

fun due_events :: "datetime \<Rightarrow> pystr set \<Rightarrow> (pystr \<times> pystr \<times> datetime option \<times> real option) list
                   \<Rightarrow> (pystr \<times> pystr \<times> real option) list" where
  "due_events now_local fired [] = []"
| "due_events now_local fired ((prefix, event_name, ev_dt, ev_az) # rest) =
     (case ev_dt of
        None \<Rightarrow> due_events now_local fired rest
      | Some d \<Rightarrow>
          if should_fire now_local (Some d) \<and> event_key prefix d \<notin> fired
          then (event_key prefix d, event_name, ev_az)
               # due_events now_local (insert (event_key prefix d) fired) rest
          else due_events now_local fired rest)"

section \<open>Predicates and concrete inputs used by the theorems\<close>

text \<open>The list under construction has no name twice and only instants of the year.\<close>

definition well_formed :: "int \<Rightarrow> term_list \<Rightarrow> bool" where
  "well_formed year acc = (distinct (map fst acc) \<and> (\<forall>e\<in>set acc. dt_year (snd e) = year))"

text \<open>Every emitted key is marked fired, and no key was emitted twice.\<close>

definition keys_consistent :: "sched \<Rightarrow> bool" where
  "keys_consistent st =
     (distinct (map fst (emitted st)) \<and> fst ` set (emitted st) \<subseteq> fired_event_keys st)"

text \<open>Every listed instant is what a refinement returned for the target of its name.\<close>

definition refined_from :: "term_env \<Rightarrow> term_list \<Rightarrow> bool" where
  "refined_from env acc =
     (\<forall>e\<in>set acc. \<exists>d target. (target, fst e) \<in> set SOLAR_TERM_LONGITUDES
                       \<and> find_solar_term_time env d target = Some (snd e))"

text \<open>From \<open>st\<close> to \<open>st'\<close> the key stayed fired and was not emitted again.\<close>

definition settled :: "pystr \<Rightarrow> sched \<Rightarrow> sched \<Rightarrow> bool" where
  "settled key st st' =
     (key \<in> fired_event_keys st' \<and> times_emitted key st' = times_emitted key st)"

text \<open>
  An ephemeris for the year 2024 that answers on four days only: the noon longitudes
  around 315 degrees on 3 and 4 February (days 738919 and 738920) and around 330 degrees
  on 18 and 19 February; every other day of the scan raises ValueError.
\<close>

definition example_env :: term_env where
  "example_env =
     \<lparr>terms_loaded = True,
      noon_lon = (\<lambda>d. if d = 738919 then Lon 314.5
                       else if d = 738920 then Lon 315.5
                       else if d = 738934 then Lon 329.6
                       else if d = 738935 then Lon 330.6
                       else RaisesValueError),
      find_solar_term_time = (\<lambda>d target.
         if target = 315 then
           Some \<lparr>dt_year = 2024, dt_month = 2, dt_day = 4, dt_hour = 8, dt_minute = 27,
                 dt_second = 5, dt_microsecond = 0\<rparr>
         else if target = 330 then
           Some \<lparr>dt_year = 2024, dt_month = 2, dt_day = 19, dt_hour = 4, dt_minute = 13,
                 dt_second = 9, dt_microsecond = 0\<rparr>
         else None)\<rparr>"

text \<open>The same ephemeris, except that the refinement of the 330 degree crossing fails.\<close>

definition partial_env :: term_env where
  "partial_env =
     example_env\<lparr>find_solar_term_time := (\<lambda>d target.
         if target = 315 then
           Some \<lparr>dt_year = 2024, dt_month = 2, dt_day = 4, dt_hour = 8, dt_minute = 27,
                 dt_second = 5, dt_microsecond = 0\<rparr>
         else None)\<rparr>"

definition partial_cache :: term_cache where
  "partial_cache =
     \<lparr>current_solar_terms =
        [([31435, 26149],
          \<lparr>dt_year = 2024, dt_month = 2, dt_day = 4, dt_hour = 8, dt_minute = 27,
           dt_second = 5, dt_microsecond = 0\<rparr>)],
      last_solar_term_calc_year = Some 2024\<rparr>"

text \<open>An ephemeris whose sampling raises an exception other than ValueError every day.\<close>

definition failing_env :: term_env where
  "failing_env =
     \<lparr>terms_loaded = True, noon_lon = (\<lambda>d. RaisesOther),
      find_solar_term_time = (\<lambda>d target. None)\<rparr>"

text \<open>A system whose local time is UTC, and a reading of the clock on 3 February 2024.\<close>

definition local_utc :: "datetime \<Rightarrow> datetime option" where
  "local_utc d = Some d"

definition feb3 :: datetime where
  "feb3 = \<lparr>dt_year = 2024, dt_month = 2, dt_day = 3, dt_hour = 9, dt_minute = 0,
           dt_second = 0, dt_microsecond = 0\<rparr>"

definition failed_cache :: term_cache where
  "failed_cache = \<lparr>current_solar_terms = [], last_solar_term_calc_year = Some 2024\<rparr>"

text \<open>
  A sunrise scheduled for 05:30:00.4 and a moonset scheduled for 05:30:01 on 1 June 2024;
  a refresh callback that returns and one that raises, both leaving the attributes as they
  are; and four polls one second apart from 05:29:59, the first of which follows the
  recomputation that schedules the two events.
\<close>

definition sunrise0 :: datetime where
  "sunrise0 = \<lparr>dt_year = 2024, dt_month = 6, dt_day = 1, dt_hour = 5, dt_minute = 30,
               dt_second = 0, dt_microsecond = 400000\<rparr>"

definition clock0 :: "int \<Rightarrow> int \<Rightarrow> datetime" where
  "clock0 m s = \<lparr>dt_year = 2024, dt_month = 6, dt_day = 1, dt_hour = 5, dt_minute = m,
                 dt_second = s, dt_microsecond = 0\<rparr>"

definition twin_astro :: astro where
  "twin_astro =
     \<lparr>next_moonrise_dt = None, next_moonrise_az = None,
      next_moonset_dt = Some (clock0 30 1), next_moonset_az = Some 250,
      next_sunrise_dt = Some sunrise0, next_sunrise_az = Some 63,
      next_sunset_dt = None, next_sunset_az = None\<rparr>"

definition twin_sched :: sched where
  "twin_sched = initial_sched\<lparr>astro := twin_astro\<rparr>"

definition refresh0 :: "nat \<Rightarrow> astro \<Rightarrow> refresh_result" where
  "refresh0 n a = Returns a"

definition raising_refresh :: "nat \<Rightarrow> astro \<Rightarrow> refresh_result" where
  "raising_refresh n a = Raises a"

definition polls0 :: "((astro \<Rightarrow> astro) \<times> datetime) list" where
  "polls0 =
     [(\<lambda>a. twin_astro, clock0 29 59),
      (\<lambda>a. a, clock0 30 0),
      (\<lambda>a. a, clock0 30 1),
      (\<lambda>a. a, clock0 30 2)]"

text \<open>A day without rise or set on which the sun is 40 degrees up at local noon and half
  a degree below the horizon at local midnight; and one with the sun up at both.\<close>

definition grazing_env :: sun_env where
  "grazing_env = \<lparr>sun_loaded = True, sun_found = Some [], noon_query = Some (40, 180),
                  midn_query = Some (- 0.5, 0)\<rparr>"

definition midnight_sun_env :: sun_env where
  "midnight_sun_env = \<lparr>sun_loaded = True, sun_found = Some [], noon_query = Some (40, 180),
                       midn_query = Some (3, 0)\<rparr>"

text \<open>The observations of a moon 90 degrees east of the sun, of a moon 90 degrees west
  of it, and of a moon whose longitude is the double 100.0 while the sun's is the next
  double above, 100 + 2^-46.\<close>

definition quarter_obs :: moon_obs where
  "quarter_obs = \<lparr>sun_pos = (1, 0, 0), moon_pos = (0, 1 / 400, 0), sun_elon = 10,
                  moon_elon = 100\<rparr>"

definition waning_obs :: moon_obs where
  "waning_obs = \<lparr>sun_pos = (1, 0, 0), moon_pos = (0, - 1 / 400, 0), sun_elon = 100,
                 moon_elon = 10\<rparr>"

definition conjunction_obs :: moon_obs where
  "conjunction_obs = \<lparr>sun_pos = (1, 0, 0), moon_pos = (1 / 400, 0, 0),
                      sun_elon = 100 + 1 / 2 ^ 46, moon_elon = 100\<rparr>"

section \<open>Telemetry parser: rejection, decoding, absence of range checks\<close>

lemmas parse_defs = parse_gprmc_def parse_gprmc_body_def bind_exn_def index_def py_float_def
  dec_literal_def unsigned_literal_def is_digit_def digits_val_def decode_coord_def
  py_int_def py_fmod_def

lemma split_on_field: "sep \<notin> set t \<Longrightarrow> split_on sep (t @ sep # r) = t # split_on sep r"
  by (induction t) (auto split: list.splits)

lemma reject_tag:
  "field line 0 \<noteq> Some (str ''$GPRMC'') \<Longrightarrow> parse_gprmc ext line = Inr None"
  by (auto simp: parse_gprmc_def parse_gprmc_body_def bind_exn_def index_def field_def Let_def
           split: sum.splits if_splits)

lemma reject_status:
  "field line 2 \<noteq> Some (str ''A'') \<Longrightarrow> parse_gprmc ext line = Inr None"
  by (auto simp: parse_gprmc_def parse_gprmc_body_def bind_exn_def index_def field_def Let_def
           split: sum.splits if_splits)

lemma reject_float:
  "float_fails ext line k \<Longrightarrow> k \<in> {3, 5, 7, 8} \<Longrightarrow> parse_gprmc ext line = Inr None"
  by (auto simp: parse_gprmc_def parse_gprmc_body_def bind_exn_def index_def field_def
                 float_fails_def Let_def
           split: sum.splits if_splits option.splits)

text \<open>
  Claim C8. For every input line and whatever the builtin \<open>float()\<close> does outside plain
  decimal literals, \<open>parse_gprmc\<close> lets no exception out; it returns None when the first
  field is not \<open>$GPRMC\<close>, when the third field is not \<open>A\<close> (or is missing), and when
  \<open>float()\<close> fails on the latitude, longitude, speed or course field (or the field is
  missing).
\<close>

theorem parse_gprmc_rejects:
  "(\<forall>e. parse_gprmc ext line \<noteq> Inl e)
   \<and> (field line 0 \<noteq> Some (str ''$GPRMC'') \<longrightarrow> parse_gprmc ext line = Inr None)
   \<and> (field line 2 \<noteq> Some (str ''A'') \<longrightarrow> parse_gprmc ext line = Inr None)
   \<and> (float_fails ext line 3 \<or> float_fails ext line 5 \<or> float_fails ext line 7
        \<or> float_fails ext line 8 \<longrightarrow> parse_gprmc ext line = Inr None)"
proof -
  have "\<forall>e. parse_gprmc ext line \<noteq> Inl e"
    by (simp add: parse_gprmc_def split: sum.splits)
  moreover have "float_fails ext line 3 \<or> float_fails ext line 5 \<or> float_fails ext line 7
        \<or> float_fails ext line 8 \<longrightarrow> parse_gprmc ext line = Inr None"
    using reject_float [of ext line] by auto
  ultimately show ?thesis using reject_tag reject_status by blast
qed

theorem parse_gprmc_rejects_witness:
  "field (str ''$GPGGA,123519,A'') 0 \<noteq> Some (str ''$GPRMC'')
   \<and> parse_gprmc ext_none (str ''$GPGGA,123519,A'') = Inr None
   \<and> field (str ''$GPRMC,123519,V,3723.2475,N,12158.3416,W,10.0,090.0'') 2 \<noteq> Some (str ''A'')
   \<and> parse_gprmc ext_none (str ''$GPRMC,123519,V,3723.2475,N,12158.3416,W,10.0,090.0'')
       = Inr None
   \<and> float_fails ext_none (str ''$GPRMC,123519,A,37x3.2475,N,12158.3416,W,10.0,090.0'') 3
   \<and> parse_gprmc ext_none (str ''$GPRMC,123519,A,37x3.2475,N,12158.3416,W,10.0,090.0'')
       = Inr None"
  using parse_gprmc_rejects [of ext_none "str ''$GPGGA,123519,A''"]
    parse_gprmc_rejects [of ext_none
      "str ''$GPRMC,123519,V,3723.2475,N,12158.3416,W,10.0,090.0''"]
    parse_gprmc_rejects [of ext_none
      "str ''$GPRMC,123519,A,37x3.2475,N,12158.3416,W,10.0,090.0''"]
  by (simp add: field_def float_fails_def str_def py_float_def dec_literal_def
        unsigned_literal_def is_digit_def ext_none_def)

lemma example_fields:
  assumes t: "44 \<notin> set t" and rest: "rest = [] \<or> (\<exists>u. rest = 44 # u)"
  shows "\<exists>more.
     split_on 44 (str ''$GPRMC,'' @ t @ str '',A,3723.2475,N,12158.3416,W,10.0,090.0'' @ rest)
     = [str ''$GPRMC'', t, str ''A'', str ''3723.2475'', str ''N'', str ''12158.3416'',
        str ''W'', str ''10.0'', str ''090.0''] @ more"
  using rest
proof
  assume "rest = []"
  then show ?thesis using t by (simp add: str_def split_on_field)
next
  assume "\<exists>u. rest = 44 # u"
  then obtain u where "rest = 44 # u" ..
  then show ?thesis using t by (simp add: str_def split_on_field)
qed

lemma example_parse:
  assumes t: "44 \<notin> set t" and rest: "rest = [] \<or> (\<exists>u. rest = 44 # u)"
  shows "parse_gprmc ext
           (str ''$GPRMC,'' @ t @ str '',A,3723.2475,N,12158.3416,W,10.0,090.0'' @ rest)
         = Inr (Some \<lparr>latitude = 37 + 23.2475 / 60, longitude = - (121 + 58.3416 / 60),
                      speed = Finite 10, course = Finite 90\<rparr>)"
proof -
  from example_fields [OF t rest] obtain more where
    "split_on 44 (str ''$GPRMC,'' @ t @ str '',A,3723.2475,N,12158.3416,W,10.0,090.0'' @ rest)
     = [str ''$GPRMC'', t, str ''A'', str ''3723.2475'', str ''N'', str ''12158.3416'',
        str ''W'', str ''10.0'', str ''090.0''] @ more" ..
  then show ?thesis
    by (simp add: parse_defs str_def)
qed

lemma decode_nonneg:
  "0 \<le> raw \<Longrightarrow>
   decode_coord (Finite raw) dir neg_dir
   = Inr ((if dir = neg_dir then - 1 else 1)
          * (of_int \<lfloor>raw / 100\<rfloor> + (raw - 100 * of_int \<lfloor>raw / 100\<rfloor>) / 60))"
  by (simp add: decode_coord_def py_int_def py_fmod_def Let_def)




text \<open>
  Claim C10. The parser checks no range: the line with latitude field 8999.9999 and
  longitude field 18099.9999 is accepted, with a latitude above 90 degrees and a longitude
  above 180 degrees.
\<close>

theorem parse_gprmc_no_range_check:
  "\<exists>fx. parse_gprmc ext (str ''$GPRMC,123519,A,8999.9999,N,18099.9999,E,10.0,090.0'')
          = Inr (Some fx)
        \<and> 90 < latitude fx \<and> 180 < longitude fx"
  by (simp add: parse_defs str_def)

section \<open>Smoothing window\<close>

lemma evict_suffix: "\<exists>pre. history = pre @ evict now history"
proof (induction history)
  case Nil
  show ?case by simp
next
  case (Cons e history)
  obtain t v where e: "e = (t, v)" by (cases e)
  from Cons obtain pre where pre: "history = pre @ evict now history" ..
  show ?case
  proof (cases "now - t > SMOOTH_WINDOW")
    case True
    then have "e # history = (e # pre) @ evict now (e # history)" using pre e by simp
    then show ?thesis ..
  next
    case False
    then have "e # history = [] @ evict now (e # history)" using e by simp
    then show ?thesis ..
  qed
qed

lemma evict_head_fresh:
  "evict now history = (t, v) # rest \<Longrightarrow> now - t \<le> SMOOTH_WINDOW"
  by (induction history) (auto split: if_splits)

lemma evict_sorted:
  assumes "sorted (map fst history)"
  shows "sorted (map fst (evict now history))"
proof -
  obtain pre where "history = pre @ evict now history" using evict_suffix by blast
  then have "map fst history = map fst pre @ map fst (evict now history)"
    by (metis map_append)
  with assms show ?thesis by (simp add: sorted_append)
qed

lemma evict_bounded:
  assumes "sorted (map fst history)"
  shows "\<forall>e\<in>set (evict now history). now - fst e \<le> SMOOTH_WINDOW"
proof (cases "evict now history")
  case Nil
  then show ?thesis by simp
next
  case (Cons e rest)
  obtain t v where e: "e = (t, v)" by (cases e)
  have fresh: "now - t \<le> SMOOTH_WINDOW" using Cons e evict_head_fresh by blast
  have "sorted (map fst (e # rest))" using evict_sorted [OF assms, of now] Cons by simp
  then have "\<forall>x\<in>set rest. t \<le> fst x" using e by auto
  with fresh show ?thesis using Cons e by auto
qed

lemma evict_subset: "set (evict now history) \<subseteq> set history"
  by (induction history) (auto split: if_splits)

lemma add_sample_keeps_new: "(now, val) \<in> set (add_sample now val history)"
  unfolding add_sample_def
  by (induction history) (auto simp: SMOOTH_WINDOW_def)

text \<open>
  Claim C7, as stated, for the clock readings 100, 50, 115 (the clock was set back between
  the first two insertions): after the third insertion the entry of time 50 is retained,
  65 seconds older than the newest timestamp. The loop stops at the leftmost entry, of
  time 100, which is 15 seconds old.
\<close>

theorem stale_entry_counterexample:
  "(50, 2) \<in> set (add_sample 115 3 (add_sample 50 2 (add_sample 100 1 [])))
   \<and> 115 - (50 :: real) > SMOOTH_WINDOW"
  by (simp add: add_sample_def SMOOTH_WINDOW_def)

text \<open>
  Claim C7, amended. When the channel's timestamps are in non-decreasing order and the
  new reading of the clock is not before any of them (a clock that is never set back),
  then after the insertion no retained entry is older than 20 seconds relative to the
  newest timestamp, the order is kept, and the new sample is retained. The average of a
  channel is the arithmetic mean of the retained values, and 0 for the empty channel. For
  samples inserted at t = 0, 5, 10, 15, 20, 25 the channel at t = 25 holds the samples
  of t = 5 to 25 and its average is their mean.
\<close>

theorem smoothing_window_bounded:
  assumes "sorted (map fst history)" and "\<forall>e\<in>set history. fst e \<le> now"
  shows "(\<forall>e\<in>set (add_sample now val history). now - fst e \<le> SMOOTH_WINDOW)
       \<and> sorted (map fst (add_sample now val history))
       \<and> (\<forall>e\<in>set (add_sample now val history). fst e \<le> now)
       \<and> (now, val) \<in> set (add_sample now val history)
       \<and> average (add_sample now val history)
           = sum_list (map snd (add_sample now val history))
             / of_nat (length (add_sample now val history))
       \<and> average [] = 0
       \<and> add_sample 25 v5 (add_sample 20 v4 (add_sample 15 v3 (add_sample 10 v2
            (add_sample 5 v1 (add_sample 0 v0 [])))))
           = [(5, v1), (10, v2), (15, v3), (20, v4), (25, v5)]
       \<and> average (add_sample 25 v5 (add_sample 20 v4 (add_sample 15 v3 (add_sample 10 v2
            (add_sample 5 v1 (add_sample 0 v0 []))))))
           = (v1 + v2 + v3 + v4 + v5) / 5"
proof -
  let ?h = "history @ [(now, val)]"
  have s: "sorted (map fst ?h)" using assms by (auto simp: sorted_append)
  have 1: "\<forall>e\<in>set (add_sample now val history). now - fst e \<le> SMOOTH_WINDOW"
    unfolding add_sample_def using evict_bounded [OF s] by blast
  have 2: "sorted (map fst (add_sample now val history))"
    unfolding add_sample_def using evict_sorted [OF s] by blast
  have 3: "\<forall>e\<in>set (add_sample now val history). fst e \<le> now"
    unfolding add_sample_def using evict_subset [of now ?h] assms(2) by auto
  have 4: "(now, val) \<in> set (add_sample now val history)" by (rule add_sample_keeps_new)
  then have ne: "add_sample now val history \<noteq> []" by auto
  have 5: "average (add_sample now val history)
           = sum_list (map snd (add_sample now val history))
             / of_nat (length (add_sample now val history))"
    using ne by (simp add: average_def)
  have 6: "average [] = 0" by (simp add: average_def)
  have 7: "add_sample 25 v5 (add_sample 20 v4 (add_sample 15 v3 (add_sample 10 v2
            (add_sample 5 v1 (add_sample 0 v0 [])))))
           = [(5, v1), (10, v2), (15, v3), (20, v4), (25, v5)]"
    by (simp add: add_sample_def SMOOTH_WINDOW_def)
  have 8: "average (add_sample 25 v5 (add_sample 20 v4 (add_sample 15 v3 (add_sample 10 v2
            (add_sample 5 v1 (add_sample 0 v0 []))))))
           = (v1 + v2 + v3 + v4 + v5) / 5"
    unfolding 7 by (simp add: average_def)
  from 1 2 3 4 5 6 7 8 show ?thesis by blast
qed

theorem smoothing_window_bounded_witness:
  "sorted (map fst [(0 :: real, 1 :: real), (10, 2)])
   \<and> add_sample 25 3 [(0, 1), (10, 2)] = [(10, 2), (25, 3)]
   \<and> sorted (map fst (add_sample 25 3 [(0, 1), (10, 2)]))
   \<and> map (\<lambda>e. 25 - fst e \<le> SMOOTH_WINDOW) (add_sample 25 3 [(0, 1), (10, 2)]) = [True, True]
   \<and> average (add_sample 25 3 [(0, 1), (10, 2)]) = 5 / 2"
proof -
  have h1: "sorted (map fst [(0 :: real, 1 :: real), (10, 2)])" by simp
  have h2: "\<forall>e\<in>set [(0 :: real, 1 :: real), (10, 2)]. fst e \<le> 25" by simp
  have v: "add_sample 25 3 [(0, 1), (10, 2)] = [(10, 2), (25, 3)]"
    by (simp add: add_sample_def SMOOTH_WINDOW_def)
  from smoothing_window_bounded [OF h1 h2, of 3 0 0 0 0 0 0]
  have "sorted (map fst (add_sample 25 3 [(0, 1), (10, 2)]))
        \<and> average (add_sample 25 3 [(0, 1), (10, 2)])
          = sum_list (map snd (add_sample 25 3 [(0, 1), (10, 2)]))
            / of_nat (length (add_sample 25 3 [(0, 1), (10, 2)]))"
    by blast
  then show ?thesis using h1 v by (simp add: SMOOTH_WINDOW_def)
qed

section \<open>Coarse scan: crossing candidates\<close>

text \<open>
  Claim C3, as stated, at the day pair 350 degrees, 1 degree: the pair does not meet the
  wrap condition (the previous longitude is not above 350), the target 0 does not lie
  between 350 and 1, and yet the target 0 is flagged, by the third branch of the test.
  The wrap rule is therefore not the only treatment of the discontinuity.
\<close>

theorem second_wrap_rule_counterexample:
  "\<not> ((350 :: real) > 350 \<and> (1 :: real) < 10)
   \<and> \<not> ((350 :: real) \<le> of_int 0 \<and> of_int 0 \<le> (1 :: real))
   \<and> crossed 350 1 0
   \<and> flagged_targets 350 1 = [0]"
  by (simp add: crossed_def flagged_targets_def SOLAR_TERM_LONGITUDES_def)

text \<open>
  Claim C3, amended. For a day pair with previous longitude above 350 and current
  longitude below 10, a target is flagged exactly when it is 0 or at least 345, so of
  the 24 targets exactly 345 and 0 are flagged. For every other pair with the previous
  longitude below the current one, a target is flagged exactly when it lies between
  them; for every other pair with the previous longitude not below the current one (a
  wrap outside the first rule), a target is flagged exactly when it is at least the
  previous or at most the current longitude.
\<close>

theorem wrap_candidates:
  "(prev_lon > 350 \<and> sun_lon < 10 \<longrightarrow>
      (crossed prev_lon sun_lon target_lon \<longleftrightarrow> target_lon = 0 \<or> target_lon \<ge> 345)
      \<and> flagged_targets prev_lon sun_lon = [345, 0])
   \<and> (\<not> (prev_lon > 350 \<and> sun_lon < 10) \<and> prev_lon < sun_lon \<longrightarrow>
      (crossed prev_lon sun_lon target_lon \<longleftrightarrow>
         prev_lon \<le> of_int target_lon \<and> of_int target_lon \<le> sun_lon))
   \<and> (\<not> (prev_lon > 350 \<and> sun_lon < 10) \<and> \<not> prev_lon < sun_lon \<longrightarrow>
      (crossed prev_lon sun_lon target_lon \<longleftrightarrow>
         of_int target_lon \<ge> prev_lon \<or> of_int target_lon \<le> sun_lon))"
  by (simp add: crossed_def flagged_targets_def SOLAR_TERM_LONGITUDES_def)

theorem wrap_candidates_witness:
  "(359.5 :: real) > 350 \<and> (0.4 :: real) < 10
   \<and> crossed 359.5 0.4 345 \<and> \<not> crossed 359.5 0.4 330
   \<and> flagged_targets 359.5 0.4 = [345, 0]
   \<and> (134.6 :: real) < 135.5 \<and> crossed 134.6 135.5 135 \<and> \<not> crossed 134.6 135.5 150
   \<and> \<not> (349.6 :: real) < 0.5 \<and> crossed 349.6 0.5 0 \<and> \<not> crossed 349.6 0.5 345"
  using wrap_candidates [of "359.5" "0.4" 345] wrap_candidates [of "359.5" "0.4" 330]
    wrap_candidates [of "134.6" "135.5" 135] wrap_candidates [of "134.6" "135.5" 150]
    wrap_candidates [of "349.6" "0.5" 0] wrap_candidates [of "349.6" "0.5" 345]
  by simp

section \<open>Moon phase buckets\<close>

lemma pow2_pos: "0 < pow2 k"
  by (simp add: pow2_def)

lemma pow2_powr: "pow2 k = 2 powr (of_int k)"
proof (cases "0 \<le> k")
  case True
  then have "(2::real) powr (of_int k) = 2 powr (real (nat k))" by simp
  also have "\<dots> = 2 ^ nat k" by (simp add: powr_realpow)
  finally show ?thesis using True by (simp add: pow2_def)
next
  case False
  then have "(2::real) powr (of_int k) = 2 powr (- real (nat (- k)))" by simp
  also have "\<dots> = 1 / 2 ^ nat (- k)" by (simp add: powr_minus powr_realpow divide_inverse)
  finally show ?thesis using False by (simp add: pow2_def)
qed

lemma floor_log2:
  assumes "pow2 k \<le> x" "x < pow2 (k + 1)"
  shows "\<lfloor>log 2 x\<rfloor> = k"
proof -
  have "0 < x" using assms(1) pow2_pos [of k] by linarith
  moreover have "2 powr (of_int k) \<le> x \<and> x < 2 powr (of_int k + 1)"
    using assms by (simp add: pow2_powr)
  ultimately show ?thesis by (simp add: floor_log_eq_powr_iff)
qed

text \<open>The value of \<open>rnd\<close> in a known binade of the normal range.\<close>

lemma rnd_binade:
  assumes "pow2 k \<le> \<bar>x\<bar>" "\<bar>x\<bar> < pow2 (k + 1)" "- 1022 \<le> k"
  shows "rnd x = of_int (py_round (x / pow2 (k - 52))) * pow2 (k - 52)"
proof -
  have "x \<noteq> 0" using assms(1) pow2_pos [of k] by auto
  moreover have "\<lfloor>log 2 \<bar>x\<bar>\<rfloor> = k" using assms(1,2) by (rule floor_log2)
  ultimately show ?thesis using assms(3) by (simp add: rnd_def Let_def max_def)
qed

lemma py_round_nonneg: "0 \<le> y \<Longrightarrow> 0 \<le> py_round y"
  by (auto simp: py_round_def Let_def)

lemma py_round_le: "y \<le> of_int N \<Longrightarrow> py_round y \<le> N"
proof -
  assume a: "y \<le> of_int N"
  have f: "\<lfloor>y\<rfloor> \<le> N" using a by (simp add: floor_le_iff) 
  show ?thesis
  proof (cases "y = of_int N")
    case True
    then show ?thesis by (simp add: py_round_def Let_def)
  next
    case False
    then have "y < of_int N" using a by simp
    then have "\<lfloor>y\<rfloor> < N" by (simp add: floor_less_iff)
    then show ?thesis by (auto simp: py_round_def Let_def)
  qed
qed

lemma rnd_bounds:
  assumes "0 \<le> x" "x \<le> of_int c" "c < 2 ^ 52"
  shows "0 \<le> rnd x \<and> rnd x \<le> of_int c"
proof (cases "x = 0")
  case True
  then show ?thesis using assms by (simp add: rnd_def)
next
  case False
  then have xpos: "0 < x" using assms(1) by simp
  define j where "j = max \<lfloor>log 2 \<bar>x\<bar>\<rfloor> (- 1022) - 52"
  define u where "u = pow2 j"
  have r: "rnd x = of_int (py_round (x / u)) * u"
    using False by (simp add: rnd_def Let_def j_def u_def)
  have upos: "0 < u" unfolding u_def by (rule pow2_pos)
  have "x < 2 ^ 52"
  proof -
    have "of_int c < (2 ^ 52 :: real)" using assms(3) by (metis of_int_less_iff of_int_numeral of_int_power)
    with assms(2) show ?thesis by linarith
  qed
  then have "x < 2 powr 52" by simp
  then have "log 2 x < 52" using xpos by (simp add: log_less_iff)
  then have "\<lfloor>log 2 \<bar>x\<bar>\<rfloor> < 52" using xpos by (simp add: floor_less_iff)
  then have jneg: "j < 0" unfolding j_def by simp
  define n where "n = nat (- j)"
  have u: "u = 1 / 2 ^ n" using jneg by (simp add: u_def pow2_def n_def)
  have cu: "of_int c / u = of_int (c * 2 ^ n)" by (simp add: u)
  have "x / u \<le> of_int c / u" using assms(2) upos by (simp add: divide_right_mono)
  then have "py_round (x / u) \<le> c * 2 ^ n" unfolding cu by (rule py_round_le)
  then have "of_int (py_round (x / u)) \<le> (of_int (c * 2 ^ n) :: real)" by (simp only: of_int_le_iff)
  then have "of_int (py_round (x / u)) * u \<le> of_int (c * 2 ^ n) * u"
    using upos by (simp add: mult_right_mono)
  also have "of_int (c * 2 ^ n) * u = of_int c" by (simp add: u)
  finally have hi: "rnd x \<le> of_int c" unfolding r .
  have "0 \<le> x / u" using xpos upos by simp
  then have "0 \<le> py_round (x / u)" by (rule py_round_nonneg)
  then have lo: "0 \<le> rnd x" unfolding r using upos by simp
  from lo hi show ?thesis ..
qed

lemma c_fmod_bounds:
  assumes "0 < m"
  shows "- m < c_fmod x m \<and> c_fmod x m < m"
proof (cases "0 \<le> x / m")
  case True
  then have p: "py_int (x / m) = \<lfloor>x / m\<rfloor>" by (simp add: py_int_def)
  from assms have "of_int \<lfloor>x / m\<rfloor> * m \<le> x" by (rule floor_divide_lower)
  moreover from assms have "x < (of_int \<lfloor>x / m\<rfloor> + 1) * m" by (rule floor_divide_upper)
  ultimately show ?thesis using assms by (simp add: c_fmod_def p algebra_simps)
next
  case False
  then have p: "py_int (x / m) = \<lceil>x / m\<rceil>" by (simp add: py_int_def)
  from assms have "x \<le> of_int \<lceil>x / m\<rceil> * m" by (rule ceiling_divide_upper)
  moreover from assms have "(of_int \<lceil>x / m\<rceil> - 1) * m < x" by (rule ceiling_divide_lower)
  ultimately show ?thesis using assms by (simp add: c_fmod_def p algebra_simps)
qed

text \<open>The float remainder by 360 is the real remainder, or its rounding.\<close>

lemma float_rem_360:
  "\<exists>k m. m = d - 360 * of_int k \<and> 0 \<le> m \<and> m < 360
         \<and> (float_rem d 360 = m \<or> float_rem d 360 = rnd m)"
proof (cases "c_fmod d 360 < 0")
  case True
  let ?m = "c_fmod d 360 + 360"
  have b: "- 360 < c_fmod d 360" using c_fmod_bounds [of 360 d] by simp
  have "?m = d - 360 * of_int (py_int (d / 360) - 1)" by (simp add: c_fmod_def algebra_simps)
  moreover have "0 \<le> ?m \<and> ?m < 360" using True b by simp
  moreover have "float_rem d 360 = rnd ?m" using True by (simp add: float_rem_def Let_def)
  ultimately show ?thesis by blast
next
  case False
  let ?m = "c_fmod d 360"
  have b: "?m < 360" using c_fmod_bounds [of 360 d] by simp
  have "?m = d - 360 * of_int (py_int (d / 360))" by (simp add: c_fmod_def)
  moreover have "0 \<le> ?m \<and> ?m < 360" using False b by simp
  moreover have "float_rem d 360 = ?m" using False by (simp add: float_rem_def Let_def)
  ultimately show ?thesis by blast
qed

lemma phase_ratio_formula:
  "\<exists>k m q. m = rnd (ml - sl) - 360 * of_int k \<and> 0 \<le> m \<and> m < 360
           \<and> (q = m \<or> q = rnd m) \<and> 0 \<le> q \<and> q \<le> 360 \<and> phase_ratio ml sl = rnd (q / 360)"
proof -
  from float_rem_360 [of "rnd (ml - sl)"] obtain k m where
    m: "m = rnd (ml - sl) - 360 * of_int k" "0 \<le> m" "m < 360"
    and q: "float_rem (rnd (ml - sl)) 360 = m \<or> float_rem (rnd (ml - sl)) 360 = rnd m"
    by blast
  have rb: "0 \<le> rnd m \<and> rnd m \<le> 360" using rnd_bounds [of m 360] m by simp
  let ?q = "float_rem (rnd (ml - sl)) 360"
  have "0 \<le> ?q \<and> ?q \<le> 360" using q m rb by auto
  moreover have "phase_ratio ml sl = rnd (?q / 360)" by (simp add: phase_ratio_def)
  ultimately show ?thesis using m q by blast
qed

lemma phase_ratio_range: "0 \<le> phase_ratio ml sl \<and> phase_ratio ml sl \<le> 1"
proof -
  from phase_ratio_formula [of ml sl] obtain q where
    q: "0 \<le> q" "q \<le> 360" and r: "phase_ratio ml sl = rnd (q / 360)" by blast
  have "0 \<le> q / 360 \<and> q / 360 \<le> of_int 1" using q by simp
  then show ?thesis unfolding r using rnd_bounds [of "q / 360" 1] by simp
qed

lemma ratio_quarter: "phase_ratio 100 10 = 1 / 4"
proof -
  have a: "rnd 90 = 90" using rnd_binade [of 6 90] by (simp add: pow2_def py_round_def)
  have b: "float_rem 90 360 = 90" by (simp add: float_rem_def c_fmod_def py_int_def)
  have c: "rnd (1 / 4) = 1 / 4" using rnd_binade [of "-2" "1/4"] by (simp add: pow2_def py_round_def)
  show ?thesis by (simp add: phase_ratio_def a b c)
qed

lemma ratio_waning: "phase_ratio 10 100 = 3 / 4"
proof -
  have a: "rnd (- 90) = - 90" using rnd_binade [of 6 "- 90"] by (simp add: pow2_def py_round_def)
  have b: "rnd 270 = 270" using rnd_binade [of 8 270] by (simp add: pow2_def py_round_def)
  have t: "\<lceil>- (1 / 4 :: real)\<rceil> = 0" by (rule ceiling_unique) simp_all
  have c: "float_rem (- 90) 360 = 270" by (simp add: float_rem_def c_fmod_def py_int_def b t)
  have d: "rnd (3 / 4) = 3 / 4" using rnd_binade [of "-1" "3/4"] by (simp add: pow2_def py_round_def)
  show ?thesis by (simp add: phase_ratio_def a c d)
qed

lemma ratio_conjunction: "phase_ratio 100 (100 + 1 / 2 ^ 46) = 1"
proof -
  have a: "rnd (- (1 / 2 ^ 46)) = - (1 / 2 ^ 46)"
    using rnd_binade [of "-46" "- (1 / 2 ^ 46)"] by (simp add: pow2_def py_round_def)
  have b: "rnd (360 - 1 / 2 ^ 46) = 360"
    using rnd_binade [of 8 "360 - 1 / 2 ^ 46"] by (simp add: pow2_def py_round_def)
  have t: "\<lceil>- (1 / 25332747903959040 :: real)\<rceil> = 0" by (rule ceiling_unique) simp_all
  have c: "float_rem (- (1 / 2 ^ 46)) 360 = 360"
    using b by (simp add: float_rem_def c_fmod_def py_int_def t)
  have d: "rnd 1 = 1" using rnd_binade [of 0 1] by (simp add: pow2_def py_round_def)
  show ?thesis using a c d by (simp add: phase_ratio_def)
qed

lemma one_bucket:
  assumes "0 \<le> r" "r < 1"
  shows "\<exists>b. filter (in_bucket r) phase_buckets = [b] \<and> fst (phase_of r) = snd (snd b)"
proof -
  consider "r < 0.0625" | "0.0625 \<le> r \<and> r < 0.1875" | "0.1875 \<le> r \<and> r < 0.3125"
    | "0.3125 \<le> r \<and> r < 0.4375" | "0.4375 \<le> r \<and> r < 0.5625" | "0.5625 \<le> r \<and> r < 0.6875"
    | "0.6875 \<le> r \<and> r < 0.8125" | "0.8125 \<le> r \<and> r < 0.9375" | "0.9375 \<le> r"
    by linarith
  then show ?thesis
    using assms by cases (simp_all add: phase_buckets_def in_bucket_def phase_of_def)
qed

lemma no_bucket_at_one:
  "filter (in_bucket 1) phase_buckets = []
   \<and> fst (phase_of 1) = snd (snd (last phase_buckets))"
  by (simp add: phase_buckets_def in_bucket_def phase_of_def)

lemma bucket_names: "card (set (map (\<lambda>b. snd (snd b)) phase_buckets)) = 8"
  by (simp only: card_set) (simp add: phase_buckets_def)

lemma buckets_contiguous:
  "contiguous phase_buckets \<and> fst (hd phase_buckets) = 0 \<and> fst (snd (last phase_buckets)) = 1"
  by (simp add: phase_buckets_def)

lemma trend_cases:
  "(trend_of r = [8593] \<longleftrightarrow> r < 1 / 2) \<and> (trend_of r = [8595] \<longleftrightarrow> 1 / 2 < r)
   \<and> (trend_of r = [8212] \<longleftrightarrow> r = 1 / 2)"
  by (auto simp: trend_of_def)

lemma moon_phase_fields:
  "phase_name (calculate_moon_phase_de421 True (Some ob))
     = fst (phase_of (phase_ratio (moon_elon ob) (sun_elon ob)))
   \<and> trend (calculate_moon_phase_de421 True (Some ob))
     = trend_of (phase_ratio (moon_elon ob) (sun_elon ob))"
  by (simp add: calculate_moon_phase_de421_def Let_def split: prod.splits)

text \<open>
  Claim C6, as stated, at the observation with moon longitude 100.0 and sun longitude
  100 + 2^-46, the next double: the difference is -2^-46, its remainder by 360 is
  360 - 2^-46, which is not a double and rounds to 360.0, and the ratio is 360.0 / 360.0,
  exactly 1. The ratio is not below 1 and none of the nine intervals contains it.
\<close>

theorem ratio_one_counterexample:
  "phase_ratio (moon_elon conjunction_obs) (sun_elon conjunction_obs) = 1
   \<and> \<not> phase_ratio (moon_elon conjunction_obs) (sun_elon conjunction_obs) < 1
   \<and> filter (in_bucket (phase_ratio (moon_elon conjunction_obs) (sun_elon conjunction_obs)))
        phase_buckets = []"
  using ratio_conjunction no_bucket_at_one by (simp add: conjunction_obs_def)

text \<open>
  Claim C6, amended. For every observation the ratio is the double precision evaluation
  of ((moonLon - sunLon) mod 360) / 360: with d the rounded difference and m its real
  remainder by 360, in [0, 360), the ratio is the rounded quotient by 360 of m or of the
  rounding of m. The ratio lies in [0, 1], the end 1 included. The nine intervals of the
  specification start at 0, end at 1 and each begins where the one before ends, and they
  carry 8 different names. A ratio below 1 lies in exactly one of them and the code
  assigns that interval's name; the ratio 1 lies in none and the code assigns the name of
  the last interval, the new moon. The trend is the up arrow exactly for a ratio below
  0.5, the down arrow exactly above 0.5, and the dash exactly at 0.5.
\<close>

theorem moon_phase_classification:
  fixes ob :: moon_obs
  defines "r \<equiv> phase_ratio (moon_elon ob) (sun_elon ob)"
    and "res \<equiv> calculate_moon_phase_de421 True (Some ob)"
  shows "(\<exists>k m q. m = rnd (moon_elon ob - sun_elon ob) - 360 * of_int k \<and> 0 \<le> m \<and> m < 360
                  \<and> (q = m \<or> q = rnd m) \<and> r = rnd (q / 360))
       \<and> 0 \<le> r \<and> r \<le> 1
       \<and> contiguous phase_buckets
       \<and> fst (hd phase_buckets) = 0 \<and> fst (snd (last phase_buckets)) = 1
       \<and> card (set (map (\<lambda>b. snd (snd b)) phase_buckets)) = 8
       \<and> (r < 1 \<longrightarrow>
            (\<exists>b. filter (in_bucket r) phase_buckets = [b] \<and> phase_name res = snd (snd b)))
       \<and> (r = 1 \<longrightarrow>
            filter (in_bucket r) phase_buckets = []
            \<and> phase_name res = snd (snd (last phase_buckets)))
       \<and> (trend res = [8593] \<longleftrightarrow> r < 1 / 2)
       \<and> (trend res = [8595] \<longleftrightarrow> 1 / 2 < r)
       \<and> (trend res = [8212] \<longleftrightarrow> r = 1 / 2)"
proof -
  have f: "\<exists>k m q. m = rnd (moon_elon ob - sun_elon ob) - 360 * of_int k \<and> 0 \<le> m \<and> m < 360
                  \<and> (q = m \<or> q = rnd m) \<and> r = rnd (q / 360)"
    unfolding r_def using phase_ratio_formula [of "moon_elon ob" "sun_elon ob"] by blast
  have rng: "0 \<le> r \<and> r \<le> 1" unfolding r_def by (rule phase_ratio_range)
  have nm: "phase_name res = fst (phase_of r)" and tr: "trend res = trend_of r"
    unfolding r_def res_def using moon_phase_fields [of ob] by simp_all
  have b1: "r < 1 \<longrightarrow>
            (\<exists>b. filter (in_bucket r) phase_buckets = [b] \<and> phase_name res = snd (snd b))"
    unfolding nm using rng one_bucket by blast
  have b2: "r = 1 \<longrightarrow>
            filter (in_bucket r) phase_buckets = []
            \<and> phase_name res = snd (snd (last phase_buckets))"
    unfolding nm using no_bucket_at_one by simp
  show ?thesis
    unfolding tr using f rng b1 b2 buckets_contiguous bucket_names trend_cases [of r] by blast
qed

theorem moon_phase_classification_witness:
  "phase_ratio (moon_elon quarter_obs) (sun_elon quarter_obs) = 1 / 4
   \<and> filter (in_bucket (1 / 4)) phase_buckets = [(0.1875, 0.3125, [19978, 24358, 26376])]
   \<and> phase_name (calculate_moon_phase_de421 True (Some quarter_obs)) = [19978, 24358, 26376]
   \<and> trend (calculate_moon_phase_de421 True (Some quarter_obs)) = [8593]
   \<and> phase_ratio (moon_elon waning_obs) (sun_elon waning_obs) = 3 / 4
   \<and> phase_name (calculate_moon_phase_de421 True (Some waning_obs)) = [19979, 24358, 26376]
   \<and> trend (calculate_moon_phase_de421 True (Some waning_obs)) = [8595]
   \<and> phase_ratio (moon_elon conjunction_obs) (sun_elon conjunction_obs) = 1
   \<and> phase_name (calculate_moon_phase_de421 True (Some conjunction_obs)) = [26032, 26376]
   \<and> trend (calculate_moon_phase_de421 True (Some conjunction_obs)) = [8595]"
proof -
  have r1: "phase_ratio (moon_elon quarter_obs) (sun_elon quarter_obs) = 1 / 4"
    using ratio_quarter by (simp add: quarter_obs_def)
  have r2: "phase_ratio (moon_elon waning_obs) (sun_elon waning_obs) = 3 / 4"
    using ratio_waning by (simp add: waning_obs_def)
  have r3: "phase_ratio (moon_elon conjunction_obs) (sun_elon conjunction_obs) = 1"
    using ratio_conjunction by (simp add: conjunction_obs_def)
  have f1: "filter (in_bucket (1 / 4)) phase_buckets = [(0.1875, 0.3125, [19978, 24358, 26376])]"
    by (simp add: phase_buckets_def in_bucket_def)
  have f2: "filter (in_bucket (3 / 4)) phase_buckets = [(0.6875, 0.8125, [19979, 24358, 26376])]"
    by (simp add: phase_buckets_def in_bucket_def)
  have l: "snd (snd (last phase_buckets)) = [26032, 26376]" by (simp add: phase_buckets_def)
  from moon_phase_classification [of quarter_obs] r1 f1
  have q: "phase_name (calculate_moon_phase_de421 True (Some quarter_obs)) = [19978, 24358, 26376]
           \<and> trend (calculate_moon_phase_de421 True (Some quarter_obs)) = [8593]"
    by simp
  from moon_phase_classification [of waning_obs] r2 f2
  have w: "phase_name (calculate_moon_phase_de421 True (Some waning_obs)) = [19979, 24358, 26376]
           \<and> trend (calculate_moon_phase_de421 True (Some waning_obs)) = [8595]"
    by simp
  from moon_phase_classification [of conjunction_obs] r3 l
  have c: "phase_name (calculate_moon_phase_de421 True (Some conjunction_obs)) = [26032, 26376]
           \<and> trend (calculate_moon_phase_de421 True (Some conjunction_obs)) = [8595]"
    by simp
  from r1 r2 r3 f1 q w c show ?thesis by blast
qed

section \<open>Sun events without rise and set\<close>

lemma sentinels_distinct: "distinct [POLAR_DAY, POLAR_NIGHT, CALC_ERROR, NOT_LOADED]"
  by (simp add: POLAR_DAY_def POLAR_NIGHT_def CALC_ERROR_def NOT_LOADED_def)

text \<open>
  Claim C2, as stated, on a day without rise or set at which the sun's altitude is 40
  degrees at local noon and -0.5 degrees at local midnight: both altitudes were evaluated,
  and the result is the computation-error sentinel.
\<close>

theorem error_with_altitudes_counterexample:
  "sun_loaded grazing_env \<and> sun_found grazing_env = Some []
   \<and> first_events [] None None = (None, None)
   \<and> altitudes_evaluated grazing_env
   \<and> calculate_sun_events_skyfield grazing_env = (CALC_ERROR, CALC_ERROR, None, None, None, None)"
  by (simp add: grazing_env_def altitudes_evaluated_def calculate_sun_events_skyfield_def
        sun_alt_az_skyfield_def)

text \<open>
  Claim C2, amended. Whenever the ephemeris is loaded, the search returns and no rise and
  no set are found: the result is the "always up" sentinel exactly when the altitudes at
  local noon and local midnight are both evaluated and both positive, the "always down"
  sentinel exactly when both are evaluated and both negative, and the computation-error
  sentinel exactly when an altitude could not be evaluated or the two altitudes are
  neither both positive nor both negative; rise and set text are the same sentinel; and
  the three sentinels and the ephemeris-unavailable sentinel are four different texts.
\<close>

theorem circumpolar_sentinels:
  assumes "sun_loaded env" and "sun_found env = Some evs"
    and "first_events evs None None = (None, None)"
  shows "(fst (calculate_sun_events_skyfield env) = POLAR_DAY \<longleftrightarrow>
           (\<exists>a b az az'. noon_query env = Some (a, az) \<and> midn_query env = Some (b, az')
               \<and> 0 < a \<and> 0 < b))
       \<and> (fst (calculate_sun_events_skyfield env) = POLAR_NIGHT \<longleftrightarrow>
           (\<exists>a b az az'. noon_query env = Some (a, az) \<and> midn_query env = Some (b, az')
               \<and> a < 0 \<and> b < 0))
       \<and> (fst (calculate_sun_events_skyfield env) = CALC_ERROR \<longleftrightarrow>
           \<not> altitudes_evaluated env \<or>
           (\<exists>a b az az'. noon_query env = Some (a, az) \<and> midn_query env = Some (b, az')
               \<and> \<not> (0 < a \<and> 0 < b) \<and> \<not> (a < 0 \<and> b < 0)))
       \<and> fst (snd (calculate_sun_events_skyfield env)) = fst (calculate_sun_events_skyfield env)
       \<and> distinct [POLAR_DAY, POLAR_NIGHT, CALC_ERROR, NOT_LOADED]"
  using assms sentinels_distinct
  by (cases "noon_query env"; cases "midn_query env")
     (auto simp: calculate_sun_events_skyfield_def sun_alt_az_skyfield_def
                 altitudes_evaluated_def Let_def split: if_splits)

theorem circumpolar_sentinels_witness:
  "sun_loaded midnight_sun_env \<and> sun_found midnight_sun_env = Some []
   \<and> first_events [] None None = (None, None)
   \<and> fst (calculate_sun_events_skyfield midnight_sun_env) = POLAR_DAY
   \<and> fst (calculate_sun_events_skyfield midnight_sun_env) \<noteq> CALC_ERROR"
proof -
  have h1: "sun_loaded midnight_sun_env" by (simp add: midnight_sun_env_def)
  have h2: "sun_found midnight_sun_env = Some []" by (simp add: midnight_sun_env_def)
  have h3: "first_events [] None None = (None, None)" by simp
  have q: "noon_query midnight_sun_env = Some (40, 180) \<and> midn_query midnight_sun_env = Some (3, 0)"
    by (simp add: midnight_sun_env_def)
  from circumpolar_sentinels [OF h1 h2 h3] q
  have "fst (calculate_sun_events_skyfield midnight_sun_env) = POLAR_DAY" by simp
  then show ?thesis using h1 h2 h3 sentinels_distinct by simp
qed

section \<open>The yearly list of solar terms\<close>

lemma list_ex_name: "list_ex (\<lambda>(name, _). name = n) acc \<longleftrightarrow> n \<in> fst ` set acc"
  by (induction acc) auto

lemma record_crossings_well_formed:
  "well_formed year acc \<Longrightarrow> well_formed year (record_crossings env year current p s tbl acc)"
proof (induction tbl arbitrary: acc)
  case Nil
  then show ?case by simp
next
  case (Cons a tbl)
  obtain target_lon term_name where a: "a = (target_lon, term_name)" by (cases a)
  show ?case
  proof (cases "crossed p s target_lon")
    case False
    then show ?thesis using Cons a by simp
  next
    case True
    show ?thesis
    proof (cases "find_solar_term_time env (current - 1) target_lon")
      case None
      then show ?thesis using True Cons a by simp
    next
      case (Some t)
      show ?thesis
      proof (cases "dt_year t = year \<and> term_name \<notin> fst ` set acc")
        case False
        then show ?thesis using True Some Cons a by (auto simp: list_ex_name)
      next
        case yes: True
        then have "well_formed year (acc @ [(term_name, t)])"
          using Cons.prems by (auto simp: well_formed_def)
        from Cons.IH [OF this] show ?thesis using True Some yes a by (simp add: list_ex_name)
      qed
    qed
  qed
qed

lemma record_crossings_names:
  "fst ` set (record_crossings env year current p s tbl acc) \<subseteq> fst ` set acc \<union> snd ` set tbl"
proof (induction tbl arbitrary: acc)
  case Nil
  then show ?case by simp
next
  case (Cons a tbl)
  obtain target_lon term_name where a: "a = (target_lon, term_name)" by (cases a)
  have 1: "fst ` set (record_crossings env year current p s tbl acc)
           \<subseteq> fst ` set acc \<union> snd ` set (a # tbl)"
    using Cons.IH [of acc] by auto
  have 2: "fst ` set (record_crossings env year current p s tbl (acc @ [(term_name, t)]))
           \<subseteq> fst ` set acc \<union> snd ` set (a # tbl)" for t
    using Cons.IH [of "acc @ [(term_name, t)]"] a by auto
  show ?case
    unfolding a record_crossings.simps using 1 2 a
    by (simp split: option.splits del: record_crossings.simps image_subset_iff)
qed

lemma scan_days_well_formed:
  "well_formed year acc \<Longrightarrow> scan_days env year days prev acc = Some r \<Longrightarrow> well_formed year r"
proof (induction days arbitrary: prev acc)
  case Nil
  then show ?case by simp
next
  case (Cons d days)
  show ?case
  proof (cases "noon_lon env d")
    case (Lon l)
    show ?thesis
    proof (cases prev)
      case None
      then show ?thesis using Cons Lon by (simp add: Let_def)
    next
      case (Some p)
      have "well_formed year
              (record_crossings env year d p (py_fmod l 360) SOLAR_TERM_LONGITUDES acc)"
        using Cons.prems(1) by (rule record_crossings_well_formed)
      then show ?thesis using Cons.IH Cons.prems(2) Lon Some by (simp add: Let_def)
    qed
  next
    case RaisesValueError
    then show ?thesis using Cons by simp
  next
    case RaisesOther
    then show ?thesis using Cons by simp
  qed
qed

lemma scan_days_names:
  "fst ` set acc \<subseteq> snd ` set SOLAR_TERM_LONGITUDES
   \<Longrightarrow> scan_days env year days prev acc = Some r
   \<Longrightarrow> fst ` set r \<subseteq> snd ` set SOLAR_TERM_LONGITUDES"
proof (induction days arbitrary: prev acc)
  case Nil
  then show ?case by simp
next
  case (Cons d days)
  show ?case
  proof (cases "noon_lon env d")
    case (Lon l)
    show ?thesis
    proof (cases prev)
      case None
      then show ?thesis using Cons Lon by (simp add: Let_def)
    next
      case (Some p)
      have "fst ` set (record_crossings env year d p (py_fmod l 360) SOLAR_TERM_LONGITUDES acc)
            \<subseteq> snd ` set SOLAR_TERM_LONGITUDES"
        using record_crossings_names
                [of env year d p "py_fmod l 360" SOLAR_TERM_LONGITUDES acc] Cons.prems(1)
        by blast
      then show ?thesis using Cons.IH Cons.prems(2) Lon Some by (simp add: Let_def)
    qed
  next
    case RaisesValueError
    then show ?thesis using Cons by simp
  next
    case RaisesOther
    then show ?thesis using Cons by simp
  qed
qed

lemma scan_days_raises:
  "scan_days env year days prev acc = None \<longleftrightarrow> (\<exists>d\<in>set days. noon_lon env d = RaisesOther)"
  by (induction days arbitrary: prev acc) (auto simp: Let_def split: sample.splits)

lemma distinct_names_sort:
  "distinct (map fst (sort_key f xs)) = distinct (map fst xs)"
proof -
  have "distinct (map fst ys) \<longleftrightarrow> card (fst ` set ys) = length ys" for ys :: "('a \<times> 'b) list"
    using distinct_card [of "map fst ys"] card_distinct [of "map fst ys"] by auto
  then show ?thesis by simp
qed

lemma scan_days_skip:
  "scan_days env year days prev acc
   = scan_days env year (filter (\<lambda>d. noon_lon env d \<noteq> RaisesValueError) days) prev acc"
  by (induction days arbitrary: prev acc) (auto simp: Let_def split: sample.splits)

lemma scan_range_2024:
  "[ymd_ordinal (2024 - 1) 12 1 .. ymd_ordinal (2024 + 1) 2 1 - 1] = [738855 .. 739282]"
  by (simp add: ymd_ordinal_def days_before_year_def days_before_month_def is_leap_def)

lemma filter_upto_none:
  "(\<And>d. a \<le> d \<Longrightarrow> d \<le> b \<Longrightarrow> \<not> P d) \<Longrightarrow> filter P [a..b] = []"
  by (simp add: filter_empty_conv)

lemma example_days:
  "filter (\<lambda>d. noon_lon example_env d \<noteq> RaisesValueError) [738855 .. 739282]
   = [738919, 738920, 738934, 738935]"
proof -
  have s: "[738855 .. 739282] = [738855 .. 738918] @ [738919] @ [738920] @ [738921 .. 738933]
             @ [738934] @ [738935] @ [738936 .. 739282 :: int]"
    by (simp add: upto_split1 [of 738855 738919 739282] upto_rec1 [of 738919 739282]
          upto_rec1 [of 738920 739282] upto_split1 [of 738921 738934 739282]
          upto_rec1 [of 738934 739282] upto_rec1 [of 738935 739282])
  have a: "filter (\<lambda>d. noon_lon example_env d \<noteq> RaisesValueError) [738855 .. 738918] = []"
    by (rule filter_upto_none) (simp add: example_env_def)
  have b: "filter (\<lambda>d. noon_lon example_env d \<noteq> RaisesValueError) [738921 .. 738933] = []"
    by (rule filter_upto_none) (simp add: example_env_def)
  have c: "filter (\<lambda>d. noon_lon example_env d \<noteq> RaisesValueError) [738936 .. 739282] = []"
    by (rule filter_upto_none) (simp add: example_env_def)
  show ?thesis unfolding s filter_append a b c by (simp add: example_env_def)
qed

lemma example_terms:
  "calculate_solar_terms example_env 2024 =
   [([31435, 26149], \<lparr>dt_year = 2024, dt_month = 2, dt_day = 4, dt_hour = 8, dt_minute = 27,
                      dt_second = 5, dt_microsecond = 0\<rparr>),
    ([38632, 27700], \<lparr>dt_year = 2024, dt_month = 2, dt_day = 19, dt_hour = 4, dt_minute = 13,
                      dt_second = 9, dt_microsecond = 0\<rparr>)]"
  unfolding calculate_solar_terms_def scan_range_2024
  by (subst scan_days_skip, subst example_days)
     (simp add: example_env_def Let_def crossed_def py_fmod_def SOLAR_TERM_LONGITUDES_def
        dt_tuple_def)

text \<open>
  Claim C4. For every year and every behaviour of the ephemeris, the list that
  \<open>calculate_solar_terms\<close> returns has no term name twice, holds only instants whose
  calendar year is the requested year, is sorted by instant, and its names are among the
  24 names of the table.
\<close>

theorem solar_terms_well_formed:
  "distinct (map fst (calculate_solar_terms env year))
   \<and> (\<forall>e\<in>set (calculate_solar_terms env year). dt_year (snd e) = year)
   \<and> sorted (map (\<lambda>e. dt_tuple (snd e)) (calculate_solar_terms env year))
   \<and> fst ` set (calculate_solar_terms env year) \<subseteq> snd ` set SOLAR_TERM_LONGITUDES"
proof (cases "scan_days env year
                [ymd_ordinal (year - 1) 12 1 .. ymd_ordinal (year + 1) 2 1 - 1] None []")
  case None
  then show ?thesis by (simp add: calculate_solar_terms_def)
next
  case (Some r)
  have wf: "well_formed year r"
    using scan_days_well_formed [OF _ Some] by (simp add: well_formed_def)
  have nm: "fst ` set r \<subseteq> snd ` set SOLAR_TERM_LONGITUDES"
    using scan_days_names [OF _ Some] by simp
  have "calculate_solar_terms env year = []
        \<or> calculate_solar_terms env year = sort_key (\<lambda>x. dt_tuple (snd x)) r"
    using Some by (simp add: calculate_solar_terms_def)
  then show ?thesis
  proof
    assume "calculate_solar_terms env year = []"
    then show ?thesis by simp
  next
    assume eq: "calculate_solar_terms env year = sort_key (\<lambda>x. dt_tuple (snd x)) r"
    show ?thesis unfolding eq using wf nm
      by (simp add: well_formed_def distinct_names_sort)
  qed
qed

theorem solar_terms_well_formed_witness:
  "map fst (calculate_solar_terms example_env 2024) = [[31435, 26149], [38632, 27700]]
   \<and> distinct (map fst (calculate_solar_terms example_env 2024))
   \<and> map (\<lambda>e. dt_year (snd e)) (calculate_solar_terms example_env 2024) = [2024, 2024]
   \<and> sorted (map (\<lambda>e. dt_tuple (snd e)) (calculate_solar_terms example_env 2024))"
  using solar_terms_well_formed [of example_env 2024] example_terms by simp

section \<open>The cache of the yearly list\<close>

lemma failing_scan: "calculate_solar_terms failing_env 2024 = []"
  unfolding calculate_solar_terms_def scan_range_2024
  by (simp add: failing_env_def upto_rec1 [of 738855 739282])

text \<open>
  Claim C5, as stated: the first query of 2024 runs while the ephemeris sampling raises,
  so the list is empty and is stored with the year 2024. A later query of the same year,
  at which the computation would return two terms, does not compute: it returns the empty
  text and leaves the stored empty list in place.
\<close>

theorem failed_list_not_retried_counterexample:
  "get_solar_term_info failing_env local_utc feb3 initial_cache = ([], failed_cache)
   \<and> calculate_solar_terms example_env 2024 \<noteq> []
   \<and> get_solar_term_info example_env local_utc feb3 failed_cache = ([], failed_cache)"
  using failing_scan example_terms
  by (simp add: get_solar_term_info_def initial_cache_def failed_cache_def feb3_def)

lemma record_crossings_refined:
  "refined_from env acc \<Longrightarrow> set tbl \<subseteq> set SOLAR_TERM_LONGITUDES
   \<Longrightarrow> refined_from env (record_crossings env year current p s tbl acc)"
proof (induction tbl arbitrary: acc)
  case Nil
  then show ?case by simp
next
  case (Cons a tbl)
  obtain target_lon term_name where a: "a = (target_lon, term_name)" by (cases a)
  have sub: "set tbl \<subseteq> set SOLAR_TERM_LONGITUDES" using Cons.prems(2) by simp
  have mem: "(target_lon, term_name) \<in> set SOLAR_TERM_LONGITUDES" using Cons.prems(2) a by simp
  have keep: "refined_from env (record_crossings env year current p s tbl acc)"
    using Cons.IH [OF Cons.prems(1) sub] .
  have add: "refined_from env (record_crossings env year current p s tbl (acc @ [(term_name, t)]))"
    if "find_solar_term_time env (current - 1) target_lon = Some t" for t
  proof -
    have "refined_from env (acc @ [(term_name, t)])"
      using Cons.prems(1) mem that by (auto simp: refined_from_def)
    then show ?thesis using sub by (rule Cons.IH)
  qed
  show ?case
    unfolding a record_crossings.simps using keep add
    by (simp split: option.splits del: record_crossings.simps)
qed

lemma scan_days_refined:
  "refined_from env acc \<Longrightarrow> scan_days env year days prev acc = Some r \<Longrightarrow> refined_from env r"
proof (induction days arbitrary: prev acc)
  case Nil
  then show ?case by simp
next
  case (Cons d days)
  show ?case
  proof (cases "noon_lon env d")
    case (Lon l)
    show ?thesis
    proof (cases prev)
      case None
      then show ?thesis using Cons Lon by (simp add: Let_def)
    next
      case (Some p)
      have "refined_from env
              (record_crossings env year d p (py_fmod l 360) SOLAR_TERM_LONGITUDES acc)"
        using Cons.prems(1) by (rule record_crossings_refined) simp
      then show ?thesis using Cons.IH Cons.prems(2) Lon Some by (simp add: Let_def)
    qed
  next
    case RaisesValueError
    then show ?thesis using Cons by simp
  next
    case RaisesOther
    then show ?thesis using Cons by simp
  qed
qed

lemma solar_terms_refined: "refined_from env (calculate_solar_terms env year)"
proof (cases "scan_days env year
                [ymd_ordinal (year - 1) 12 1 .. ymd_ordinal (year + 1) 2 1 - 1] None []")
  case None
  then show ?thesis by (simp add: calculate_solar_terms_def refined_from_def)
next
  case (Some r)
  have "refined_from env r" using scan_days_refined [OF _ Some] by (simp add: refined_from_def)
  then show ?thesis using Some by (simp add: calculate_solar_terms_def refined_from_def)
qed

lemma partial_terms:
  "calculate_solar_terms partial_env 2024 = current_solar_terms partial_cache"
proof -
  have n: "noon_lon partial_env = noon_lon example_env" by (simp add: partial_env_def)
  show ?thesis
    unfolding calculate_solar_terms_def scan_range_2024
    by (subst scan_days_skip, subst n, subst example_days)
       (simp add: example_env_def partial_env_def partial_cache_def Let_def crossed_def
          py_fmod_def SOLAR_TERM_LONGITUDES_def dt_tuple_def)
qed

text \<open>
  Claim C5, amended. A failure inside the solar-term computation is caught there: an
  ephemeris that is not loaded, and a sampling that raises an exception other than
  ValueError, give the empty list; a sampling that raises ValueError skips its day, the
  scan going on as if the day were not in the range; a refinement that fails records
  nothing, so that every listed instant is what a refinement returned for the target of
  its name. The list that results, empty, incomplete or complete, is stored with the
  calendar year of the query that computed it. A query in the stored year leaves the
  cache as it is, whatever the computation would return now, and gives the empty text
  when the stored list is empty: a failed result is served until the year changes.
\<close>

theorem failed_list_cached_for_year:
  "(\<not> terms_loaded env \<longrightarrow> calculate_solar_terms env year = [])
   \<and> ((\<exists>d\<in>set [ymd_ordinal (year - 1) 12 1 .. ymd_ordinal (year + 1) 2 1 - 1].
          noon_lon env d = RaisesOther) \<longrightarrow> calculate_solar_terms env year = [])
   \<and> scan_days env year days prev acc
       = scan_days env year (filter (\<lambda>d. noon_lon env d \<noteq> RaisesValueError) days) prev acc
   \<and> (\<forall>e\<in>set (calculate_solar_terms env year).
         \<exists>d target. (target, fst e) \<in> set SOLAR_TERM_LONGITUDES
                    \<and> find_solar_term_time env d target = Some (snd e))
   \<and> (last_solar_term_calc_year cache \<noteq> Some (dt_year today) \<longrightarrow>
        snd (get_solar_term_info env local_of today cache)
        = \<lparr>current_solar_terms = calculate_solar_terms env (dt_year today),
           last_solar_term_calc_year = Some (dt_year today)\<rparr>)
   \<and> (last_solar_term_calc_year cache = Some (dt_year today) \<longrightarrow>
        snd (get_solar_term_info env local_of today cache) = cache)
   \<and> (last_solar_term_calc_year cache = Some (dt_year today)
        \<and> current_solar_terms cache = [] \<longrightarrow>
        get_solar_term_info env local_of today cache = ([], cache))"
proof -
  have 1: "\<not> terms_loaded env \<longrightarrow> calculate_solar_terms env year = []"
    by (simp add: calculate_solar_terms_def)
  have 2: "(\<exists>d\<in>set [ymd_ordinal (year - 1) 12 1 .. ymd_ordinal (year + 1) 2 1 - 1].
          noon_lon env d = RaisesOther) \<longrightarrow> calculate_solar_terms env year = []"
  proof
    assume "\<exists>d\<in>set [ymd_ordinal (year - 1) 12 1 .. ymd_ordinal (year + 1) 2 1 - 1].
          noon_lon env d = RaisesOther"
    then have "scan_days env year
                 [ymd_ordinal (year - 1) 12 1 .. ymd_ordinal (year + 1) 2 1 - 1] None [] = None"
      by (simp only: scan_days_raises)
    then show "calculate_solar_terms env year = []" by (simp add: calculate_solar_terms_def)
  qed
  have 3: "last_solar_term_calc_year cache \<noteq> Some (dt_year today) \<longrightarrow>
        snd (get_solar_term_info env local_of today cache)
        = \<lparr>current_solar_terms = calculate_solar_terms env (dt_year today),
           last_solar_term_calc_year = Some (dt_year today)\<rparr>"
    by (simp add: get_solar_term_info_def Let_def split: sum.splits)
  have 4: "last_solar_term_calc_year cache = Some (dt_year today) \<longrightarrow>
        snd (get_solar_term_info env local_of today cache) = cache"
    by (simp add: get_solar_term_info_def Let_def split: sum.splits)
  have 5: "last_solar_term_calc_year cache = Some (dt_year today)
        \<and> current_solar_terms cache = [] \<longrightarrow>
        get_solar_term_info env local_of today cache = ([], cache)"
    by (simp add: get_solar_term_info_def Let_def)
  have 6: "scan_days env year days prev acc
       = scan_days env year (filter (\<lambda>d. noon_lon env d \<noteq> RaisesValueError) days) prev acc"
    by (rule scan_days_skip)
  have 7: "\<forall>e\<in>set (calculate_solar_terms env year).
         \<exists>d target. (target, fst e) \<in> set SOLAR_TERM_LONGITUDES
                    \<and> find_solar_term_time env d target = Some (snd e)"
    using solar_terms_refined [of env year] by (simp add: refined_from_def)
  from 1 2 3 4 5 6 7 show ?thesis by blast
qed

theorem failed_list_cached_for_year_witness:
  "noon_lon failing_env 738855 = RaisesOther
   \<and> calculate_solar_terms failing_env 2024 = []
   \<and> last_solar_term_calc_year initial_cache \<noteq> Some (dt_year feb3)
   \<and> snd (get_solar_term_info failing_env local_utc feb3 initial_cache) = failed_cache
   \<and> last_solar_term_calc_year failed_cache = Some (dt_year feb3)
   \<and> current_solar_terms failed_cache = []
   \<and> get_solar_term_info example_env local_utc feb3 failed_cache = ([], failed_cache)
   \<and> noon_lon partial_env 738856 = RaisesValueError
   \<and> find_solar_term_time partial_env 738934 330 = None
   \<and> map fst (calculate_solar_terms partial_env 2024) = [[31435, 26149]]
   \<and> snd (get_solar_term_info partial_env local_utc feb3 initial_cache) = partial_cache
   \<and> last_solar_term_calc_year partial_cache = Some (dt_year feb3)
   \<and> snd (get_solar_term_info example_env local_utc feb3 partial_cache) = partial_cache"
proof -
  have h1: "\<exists>d\<in>set [ymd_ordinal (2024 - 1) 12 1 .. ymd_ordinal (2024 + 1) 2 1 - 1].
      noon_lon failing_env d = RaisesOther"
    unfolding scan_range_2024 set_upto
  proof
    show "noon_lon failing_env 738855 = RaisesOther" by (simp add: failing_env_def)
    show "738855 \<in> {738855..739282 :: int}" by simp
  qed
  have h2: "last_solar_term_calc_year initial_cache \<noteq> Some (dt_year feb3)"
    by (simp add: initial_cache_def)
  have h3: "last_solar_term_calc_year failed_cache = Some (dt_year feb3)
            \<and> current_solar_terms failed_cache = []"
    by (simp add: failed_cache_def feb3_def)
  have h4: "last_solar_term_calc_year partial_cache = Some (dt_year feb3)"
    by (simp add: partial_cache_def feb3_def)
  have y: "dt_year feb3 = 2024" by (simp add: feb3_def)
  from failed_list_cached_for_year [of failing_env 2024 "[]" None "[]" initial_cache feb3
      local_utc] h1 h2
  have a: "calculate_solar_terms failing_env 2024 = []"
    and b: "snd (get_solar_term_info failing_env local_utc feb3 initial_cache)
            = \<lparr>current_solar_terms = calculate_solar_terms failing_env (dt_year feb3),
               last_solar_term_calc_year = Some (dt_year feb3)\<rparr>"
    by blast+
  from failed_list_cached_for_year [of example_env 2024 "[]" None "[]" failed_cache feb3
      local_utc] h3
  have c: "get_solar_term_info example_env local_utc feb3 failed_cache = ([], failed_cache)"
    by blast
  from failed_list_cached_for_year [of partial_env 2024 "[]" None "[]" initial_cache feb3
      local_utc] h2
  have d: "snd (get_solar_term_info partial_env local_utc feb3 initial_cache)
            = \<lparr>current_solar_terms = calculate_solar_terms partial_env (dt_year feb3),
               last_solar_term_calc_year = Some (dt_year feb3)\<rparr>"
    by blast
  from failed_list_cached_for_year [of example_env 2024 "[]" None "[]" partial_cache feb3
      local_utc] h4
  have e: "snd (get_solar_term_info example_env local_utc feb3 partial_cache) = partial_cache"
    by blast
  have b': "snd (get_solar_term_info failing_env local_utc feb3 initial_cache) = failed_cache"
    using b a y by (simp add: failed_cache_def)
  have d': "snd (get_solar_term_info partial_env local_utc feb3 initial_cache) = partial_cache"
    using d y partial_terms by (simp add: partial_cache_def)
  have p: "noon_lon partial_env 738856 = RaisesValueError
           \<and> find_solar_term_time partial_env 738934 330 = None
           \<and> map fst (calculate_solar_terms partial_env 2024) = [[31435, 26149]]"
    using partial_terms by (simp add: partial_env_def example_env_def partial_cache_def)
  have f: "noon_lon failing_env 738855 = RaisesOther" by (simp add: failing_env_def)
  from f a h2 b' h3 c p d' h4 e show ?thesis by blast
qed

section \<open>Event scheduler: each key fires once\<close>

lemma fire_once_consistent:
  "keys_consistent st \<Longrightarrow> keys_consistent (state_of (fire_once refresh key name az st))"
  by (auto simp: keys_consistent_def fire_once_def state_of_def Let_def split: refresh_result.splits)

lemma check_event_consistent:
  "keys_consistent st
   \<Longrightarrow> keys_consistent (state_of (check_event refresh now prefix name ev_dt ev_az st))"
  using fire_once_consistent
  by (auto simp: check_event_def state_of_def split: option.splits)

lemma then_check_consistent:
  assumes "keys_consistent (state_of r)"
    and "\<And>st. keys_consistent st \<Longrightarrow> keys_consistent (state_of (f st))"
  shows "keys_consistent (state_of (then_check r f))"
  using assms by (cases r) (auto simp: then_check_def state_of_def)

lemma maybe_fire_event_consistent:
  "keys_consistent st \<Longrightarrow> keys_consistent (state_of (maybe_fire_event refresh now st))"
  unfolding maybe_fire_event_def
  by (intro then_check_consistent check_event_consistent)

lemma astro_update_consistent:
  "keys_consistent st \<Longrightarrow> keys_consistent (st\<lparr>astro := a\<rparr>)"
  by (simp add: keys_consistent_def)

lemma run_polls_consistent:
  "keys_consistent st \<Longrightarrow> keys_consistent (run_polls refresh polls st)"
  by (induction polls arbitrary: st)
     (auto simp: maybe_fire_event_consistent astro_update_consistent)

lemma initial_consistent: "keys_consistent initial_sched"
  by (simp add: keys_consistent_def initial_sched_def)

lemma distinct_filter_le_1:
  "distinct (map fst es) \<Longrightarrow> length (filter (\<lambda>e. fst e = k) es) \<le> 1"
  by (induction es) (auto simp: filter_empty_conv image_iff)

lemma at_most_once: "times_emitted key (run_polls refresh polls initial_sched) \<le> 1"
proof -
  have "distinct (map fst (emitted (run_polls refresh polls initial_sched)))"
    using run_polls_consistent [OF initial_consistent, of refresh polls]
    by (simp add: keys_consistent_def)
  then show ?thesis unfolding times_emitted_def by (rule distinct_filter_le_1)
qed

lemma settled_refl: "key \<in> fired_event_keys st \<Longrightarrow> settled key st st"
  by (simp add: settled_def)

lemma settled_trans: "settled key a b \<Longrightarrow> settled key b c \<Longrightarrow> settled key a c"
  by (simp add: settled_def)

lemma fire_once_settled:
  "key \<in> fired_event_keys st \<Longrightarrow> settled key st (state_of (fire_once refresh key' name az st))"
  by (auto simp: settled_def fire_once_def state_of_def Let_def times_emitted_def
           split: refresh_result.splits)

lemma check_event_settled:
  "key \<in> fired_event_keys st
   \<Longrightarrow> settled key st (state_of (check_event refresh now prefix name ev_dt ev_az st))"
  using fire_once_settled [of key st]
  by (auto simp: check_event_def settled_def state_of_def split: option.splits)

lemma then_check_settled:
  assumes "settled key st (state_of r)"
    and "\<And>st'. key \<in> fired_event_keys st' \<Longrightarrow> settled key st' (state_of (f st'))"
  shows "settled key st (state_of (then_check r f))"
proof (cases r)
  case (Done st')
  then have a: "settled key st st'" using assms(1) by (simp add: state_of_def)
  then have "key \<in> fired_event_keys st'" by (simp add: settled_def)
  then have "settled key st' (state_of (f st'))" by (rule assms(2))
  with a have "settled key st (state_of (f st'))" by (rule settled_trans)
  then show ?thesis using Done by (simp add: then_check_def)
next
  case (Aborted st')
  then show ?thesis using assms(1) by (simp add: then_check_def state_of_def)
qed

lemma maybe_fire_event_settled:
  assumes "key \<in> fired_event_keys st"
  shows "settled key st (state_of (maybe_fire_event refresh now st))"
  unfolding maybe_fire_event_def
  by (intro then_check_settled check_event_settled assms) 

lemma run_polls_settled:
  "key \<in> fired_event_keys st \<Longrightarrow> settled key st (run_polls refresh polls st)"
proof (induction polls arbitrary: st)
  case Nil
  then show ?case by (simp add: settled_def)
next
  case (Cons p polls)
  obtain upd now where p: "p = (upd, now)" by (cases p)
  let ?st0 = "st\<lparr>astro := upd (astro st)\<rparr>"
  let ?st1 = "state_of (maybe_fire_event refresh now ?st0)"
  have k0: "key \<in> fired_event_keys ?st0" using Cons.prems by simp
  have a: "settled key st ?st0" using Cons.prems by (simp add: settled_def times_emitted_def)
  have b: "settled key ?st0 ?st1"
    using k0 by (rule maybe_fire_event_settled)
  then have "key \<in> fired_event_keys ?st1" by (simp add: settled_def)
  then have c: "settled key ?st1 (run_polls refresh polls ?st1)"
    by (rule Cons.IH)
  from a b c have "settled key st (run_polls refresh polls ?st1)"
    using settled_trans by blast
  then show ?case using p by simp
qed

lemma should_fire_iff:
  "should_fire now (Some d) \<longleftrightarrow> \<bar>dt_micros now - dt_micros d\<bar> \<le> 1500000"
proof -
  have "\<bar>real_of_int (dt_micros now - dt_micros d) / 1000000\<bar> \<le> 1.5
        \<longleftrightarrow> \<bar>real_of_int (dt_micros now - dt_micros d)\<bar> \<le> 1500000"
    by (simp add: field_simps)
  also have "\<dots> \<longleftrightarrow> real_of_int \<bar>dt_micros now - dt_micros d\<bar> \<le> real_of_int 1500000"
    by simp
  also have "\<dots> \<longleftrightarrow> \<bar>dt_micros now - dt_micros d\<bar> \<le> 1500000" by (rule of_int_le_iff)
  finally show ?thesis by (simp add: should_fire_def total_seconds_between_def)
qed

lemma check_event_marks:
  "should_fire now (Some d) \<Longrightarrow>
    event_key prefix d \<in> fired_event_keys (state_of (check_event refresh now prefix name (Some d) az st))"
  by (auto simp: check_event_def fire_once_def state_of_def Let_def split: refresh_result.splits)

lemma check_event_fires:
  "should_fire now (Some d) \<Longrightarrow> event_key prefix d \<notin> fired_event_keys st \<Longrightarrow>
   refresh (refresh_calls st) (astro st) = Returns a \<Longrightarrow>
    check_event refresh now prefix name (Some d) az st
    = Done (st\<lparr>astro := a, fired_event_keys := insert (event_key prefix d) (fired_event_keys st),
              emitted := emitted st @ [(event_key prefix d, name, az)],
              refresh_calls := Suc (refresh_calls st)\<rparr>)"
  by (simp add: check_event_def fire_once_def Let_def)

lemma check_event_idle:
  "\<not> should_fire now ev_dt \<or> (\<exists>d. ev_dt = Some d \<and> event_key prefix d \<in> fired_event_keys st)
   \<Longrightarrow> check_event refresh now prefix name ev_dt az st = Done st"
  by (auto simp: check_event_def fire_once_def should_fire_def split: option.splits)

text \<open>With a callback that returns and keeps the attributes, one block appends what it
  owes.\<close>

lemma check_event_due:
  assumes "\<forall>n a. refresh n a = Returns a"
  shows "\<exists>st'. check_event refresh now prefix name ev_dt az st = Done st'
      \<and> astro st' = astro st
      \<and> emitted st' = emitted st @ due_events now (fired_event_keys st) [(prefix, name, ev_dt, az)]
      \<and> fired_event_keys st' = fired_event_keys st
           \<union> fst ` set (due_events now (fired_event_keys st) [(prefix, name, ev_dt, az)])"
  using assms
  by (cases ev_dt) (auto simp: check_event_def fire_once_def Let_def)

lemma due_events_append:
  "due_events now fired (xs @ ys)
   = due_events now fired xs @ due_events now (fired \<union> fst ` set (due_events now fired xs)) ys"
proof (induction xs arbitrary: fired)
  case Nil
  show ?case by simp
next
  case (Cons x xs)
  obtain prefix name ev_dt az where x: "x = (prefix, name, ev_dt, az)" by (cases x)
  show ?case
  proof (cases ev_dt)
    case None
    then show ?thesis using Cons x by simp
  next
    case (Some d)
    show ?thesis
    proof (cases "should_fire now (Some d) \<and> event_key prefix d \<notin> fired")
      case True
      have "insert (event_key prefix d) fired \<union> S = fired \<union> insert (event_key prefix d) S" for S
        by auto
      then show ?thesis using True Some x Cons [of "insert (event_key prefix d) fired"] by simp
    next
      case False
      then show ?thesis using Some x Cons [of fired] by auto
    qed
  qed
qed

lemma poll_due:
  assumes r: "\<forall>n a. refresh n a = Returns a"
  shows "\<exists>st'. maybe_fire_event refresh now st = Done st'
      \<and> emitted st' = emitted st @ due_events now (fired_event_keys st) (scheduled (astro st))"
proof -
  let ?a = "astro st"
  let ?e1 = "(str ''moonrise-'', [26376, 20986], next_moonrise_dt ?a, next_moonrise_az ?a)"
  let ?e2 = "(str ''moonset-'', [26376, 33853], next_moonset_dt ?a, next_moonset_az ?a)"
  let ?e3 = "(str ''sunrise-'', [26085, 20986], next_sunrise_dt ?a, next_sunrise_az ?a)"
  let ?e4 = "(str ''sunset-'', [26085, 33853], next_sunset_dt ?a, next_sunset_az ?a)"
  from check_event_due [OF r, of now "str ''moonrise-''" "[26376, 20986]" "next_moonrise_dt ?a"
      "next_moonrise_az ?a" st]
  obtain s1 where s1: "check_event refresh now (str ''moonrise-'') [26376, 20986]
        (next_moonrise_dt ?a) (next_moonrise_az ?a) st = Done s1" "astro s1 = ?a"
     "emitted s1 = emitted st @ due_events now (fired_event_keys st) [?e1]"
     "fired_event_keys s1 = fired_event_keys st \<union> fst ` set (due_events now (fired_event_keys st) [?e1])"
    by blast
  from check_event_due [OF r, of now "str ''moonset-''" "[26376, 33853]" "next_moonset_dt ?a"
      "next_moonset_az ?a" s1]
  obtain s2 where s2: "check_event refresh now (str ''moonset-'') [26376, 33853]
        (next_moonset_dt ?a) (next_moonset_az ?a) s1 = Done s2" "astro s2 = ?a"
     "emitted s2 = emitted s1 @ due_events now (fired_event_keys s1) [?e2]"
     "fired_event_keys s2 = fired_event_keys s1 \<union> fst ` set (due_events now (fired_event_keys s1) [?e2])"
    using s1(2) by auto
  from check_event_due [OF r, of now "str ''sunrise-''" "[26085, 20986]" "next_sunrise_dt ?a"
      "next_sunrise_az ?a" s2]
  obtain s3 where s3: "check_event refresh now (str ''sunrise-'') [26085, 20986]
        (next_sunrise_dt ?a) (next_sunrise_az ?a) s2 = Done s3" "astro s3 = ?a"
     "emitted s3 = emitted s2 @ due_events now (fired_event_keys s2) [?e3]"
     "fired_event_keys s3 = fired_event_keys s2 \<union> fst ` set (due_events now (fired_event_keys s2) [?e3])"
    using s2(2) by auto
  from check_event_due [OF r, of now "str ''sunset-''" "[26085, 33853]" "next_sunset_dt ?a"
      "next_sunset_az ?a" s3]
  obtain s4 where s4: "check_event refresh now (str ''sunset-'') [26085, 33853]
        (next_sunset_dt ?a) (next_sunset_az ?a) s3 = Done s4"
     "emitted s4 = emitted s3 @ due_events now (fired_event_keys s3) [?e4]"
    using s3(2) by auto
  have run: "maybe_fire_event refresh now st = Done s4"
    using s1(1,2) s2(1,2) s3(1,2) s4(1) by (simp add: maybe_fire_event_def then_check_def)
  have sch: "scheduled ?a = [?e1] @ ([?e2] @ ([?e3] @ [?e4]))" by (simp add: scheduled_def)
  have "due_events now (fired_event_keys st) (scheduled ?a)
        = due_events now (fired_event_keys st) [?e1] @ due_events now (fired_event_keys s1) [?e2]
          @ due_events now (fired_event_keys s2) [?e3] @ due_events now (fired_event_keys s3) [?e4]"
    unfolding sch due_events_append [of now _ "[?e1]"] due_events_append [of now _ "[?e2]"]
      due_events_append [of now _ "[?e3]"]
    using s1(4) s2(4) s3(4) by simp
  then have "emitted s4 = emitted st @ due_events now (fired_event_keys st) (scheduled ?a)"
    using s1(3) s2(3) s3(3) s4(2) by simp
  with run show ?thesis by blast
qed

lemma sunrise0_key:
  "event_key (str ''sunrise-'') sunrise0 = str ''sunrise-2024-06-01 05:30:00''"
  by (simp add: event_key_def strftime_ymd_hms_def strftime_hms_def fmt02_def zero_pad_def
        decimal.simps sunrise0_def str_def)

lemmas poll_defs = initial_sched_def twin_sched_def twin_astro_def maybe_fire_event_def
  then_check_def state_of_def check_event_def should_fire_def total_seconds_between_def
  dt_micros_def dt_ordinal_def ymd_ordinal_def days_before_year_def days_before_month_def
  is_leap_def fire_once_def clock0_def sunrise0_def Let_def event_key_def
  strftime_ymd_hms_def strftime_hms_def fmt02_def zero_pad_def decimal.simps str_def

lemma sunrise0_due:
  "should_fire (clock0 29 59) (Some sunrise0)
   \<and> should_fire (clock0 30 0) (Some sunrise0)
   \<and> should_fire (clock0 30 1) (Some sunrise0)
   \<and> \<not> should_fire (clock0 30 2) (Some sunrise0)"
  by (simp add: should_fire_def total_seconds_between_def dt_micros_def dt_ordinal_def
        clock0_def sunrise0_def)




end
